theory Spec2Isabelle
  imports Complex_Main "HOL-Library.Monad_Syntax"
begin

section \<open>Numbers and vectors\<close>

text \<open>
  The geometry of connectors, particles and materials is followed on real numbers, for
  scenes whose coordinates are finite. The force-directed layout, whose numbers can grow
  without bound, is followed on the values of JavaScript numbers, infinities and
  \<^verbatim>\<open>NaN\<close> included (section on the layout).
\<close>

definition or_one :: "real \<Rightarrow> real" where
  \<comment> \<open>JavaScript \<^verbatim>\<open>d || 1\<close> on a number: 0 is falsy and is replaced by 1.\<close>
  "or_one d = (if d = 0 then 1 else d)"

text \<open>\<^verbatim>\<open>THREE.Vector3\<close> with the operations the code calls.\<close>

record Vector3 =
  vec_x :: real
  vec_y :: real
  vec_z :: real

definition vec3 :: "real \<Rightarrow> real \<Rightarrow> real \<Rightarrow> Vector3" where
  "vec3 a b c = \<lparr>vec_x = a, vec_y = b, vec_z = c\<rparr>"

definition addVectors :: "Vector3 \<Rightarrow> Vector3 \<Rightarrow> Vector3" where
  "addVectors a b = vec3 (vec_x a + vec_x b) (vec_y a + vec_y b) (vec_z a + vec_z b)"

definition subVectors :: "Vector3 \<Rightarrow> Vector3 \<Rightarrow> Vector3" where
  "subVectors a b = vec3 (vec_x a - vec_x b) (vec_y a - vec_y b) (vec_z a - vec_z b)"

definition multiplyScalar :: "Vector3 \<Rightarrow> real \<Rightarrow> Vector3" where
  "multiplyScalar v s = vec3 (vec_x v * s) (vec_y v * s) (vec_z v * s)"

definition negate :: "Vector3 \<Rightarrow> Vector3" where
  "negate v = vec3 (- vec_x v) (- vec_y v) (- vec_z v)"

definition vlength :: "Vector3 \<Rightarrow> real" where
  "vlength v = sqrt (vec_x v * vec_x v + vec_y v * vec_y v + vec_z v * vec_z v)"

definition normalize :: "Vector3 \<Rightarrow> Vector3" where
  \<comment> \<open>\<^verbatim>\<open>normalize() { return this.divideScalar(this.length() || 1); }\<close>\<close>
  "normalize v = multiplyScalar v (1 / or_one (vlength v))"

definition lerp :: "Vector3 \<Rightarrow> Vector3 \<Rightarrow> real \<Rightarrow> Vector3" where
  \<comment> \<open>\<^verbatim>\<open>this.x += (v.x - this.x) * alpha\<close>, likewise y and z\<close>
  "lerp a v alpha =
     vec3 (vec_x a + (vec_x v - vec_x a) * alpha)
          (vec_y a + (vec_y v - vec_y a) * alpha)
          (vec_z a + (vec_z v - vec_z a) * alpha)"

definition distanceTo :: "Vector3 \<Rightarrow> Vector3 \<Rightarrow> real" where
  "distanceTo a b = vlength (subVectors a b)"

section \<open>Data model (analyzer/types.ts)\<close>

datatype SocialRelationType =
  BEST_FRIEND | UNREQUITED_LOVE | TOXIC_RELATIONSHIP | SECRET_ADMIRER | FAN_FOLLOWING | CONTRACT

datatype Health = Excellent | Good | Fair | Poor | Critical

record DependencyRelation =
  rel_from :: string
  rel_to :: string
  relationType :: SocialRelationType
  strength :: real
  description :: string

datatype PersonalityType =
  HEROIC | RELIABLE | HELPFUL | QUIRKY | MYSTERIOUS | FRAGILE | BUSY | LONELY

record Stats =
  linesOfCode :: real
  complexity :: real
  callCount :: real
  bugRisk :: real

record CharacterPersona =
  name :: string
  originalFile :: string
  personality :: PersonalityType
  traits :: "string list"
  role :: string
  color :: string
  icon :: string
  health :: Health
  stats :: Stats

text \<open>A persona for the example scenes below: a healthy helper module of 100 lines.\<close>

definition example_persona :: "string \<Rightarrow> CharacterPersona" where
  "example_persona file =
     \<lparr>name = file, originalFile = file, personality = HELPFUL, traits = [], role = [],
      color = ''#2ECC71'', icon = [], health = Good,
      stats = \<lparr>linesOfCode = 100, complexity = 1, callCount = 0, bugRisk = 1\<rparr>\<rparr>"

section \<open>CharacterMeshGenerator.calculateScaleFromCodeSize\<close>

text \<open>\<^verbatim>\<open>const baseScale = 1 + Math.min((linesOfCode / 500) * 0.1, 0.5);\<close>\<close>

definition baseScale :: "real \<Rightarrow> real" where
  "baseScale loc = 1 + min ((loc / 500) * 0.1) 0.5"

text \<open>\<^verbatim>\<open>return Math.max(0.6, Math.min(1.5, baseScale));\<close>\<close>

definition calculateScaleFromCodeSize :: "real \<Rightarrow> real" where
  "calculateScaleFromCodeSize loc = max 0.6 (min 1.5 (baseScale loc))"

section \<open>SceneManager.isBidirectionalRelation\<close>

text \<open>\<^verbatim>\<open>Array.prototype.some\<close>: true as soon as one element satisfies the predicate.\<close>

fun some :: "('a \<Rightarrow> bool) \<Rightarrow> 'a list \<Rightarrow> bool" where
  "some p [] = False"
| "some p (x # xs) = (if p x then True else some p xs)"

text \<open>\<^verbatim>\<open>return relations.some(r => r.from === to && r.to === from);\<close>\<close>

definition isBidirectionalRelation :: "string \<Rightarrow> string \<Rightarrow> DependencyRelation list \<Rightarrow> bool" where
  "isBidirectionalRelation from' to' relations =
     some (\<lambda>r. rel_from r = to' \<and> rel_to r = from') relations"

section \<open>Connectors: SceneManager.createRelationLine\<close>

datatype MaterialKind =
  MeshToonMaterial | MeshStandardMaterial | MeshBasicMaterial | SpriteMaterial

text \<open>
  The two keys the interaction code reads from and writes to \<^verbatim>\<open>material.userData\<close>;
  a key that was never written is \<open>None\<close> (\<^verbatim>\<open>undefined\<close>).
\<close>

record MaterialUserData =
  wasTransparent :: "bool option"
  originalOpacity :: "real option"

record Material =
  mat_kind :: MaterialKind
  mat_transparent :: bool
  mat_opacity :: real
  mat_userData :: "MaterialUserData option"

definition empty_userData :: MaterialUserData where
  \<comment> \<open>the object \<^verbatim>\<open>{}\<close> that the THREE.Material constructor stores in \<^verbatim>\<open>userData\<close>\<close>
  "empty_userData = \<lparr>wasTransparent = None, originalOpacity = None\<rparr>"

text \<open>
  A mesh of a connector: its position, its scale, the unit vector its Y axis is turned to
  (\<^verbatim>\<open>quaternion.setFromUnitVectors(new Vector3(0, 1, 0), d)\<close> is recorded as \<open>d\<close>), and the
  height its geometry was built with.
\<close>

record Mesh =
  mesh_position :: Vector3
  mesh_scale :: Vector3
  mesh_axis :: Vector3
  mesh_height :: real

definition new_Mesh :: "real \<Rightarrow> Mesh" where
  "new_Mesh h = \<lparr>mesh_position = vec3 0 0 0, mesh_scale = vec3 1 1 1,
                  mesh_axis = vec3 0 1 0, mesh_height = h\<rparr>"

record SceneFlowParticle =
  fp_position :: Vector3
  fp_speed :: real
  fp_offset :: real
  fp_direction :: real

text \<open>
  The \<^verbatim>\<open>THREE.Group\<close> of one relation. Children: the pipe, the arrows (in the order they
  were added), the particle meshes (held in \<open>ud_flowParticles\<close>), the icon and the label
  sprite. The pipe and the arrows share one material object, \<open>rg_pipeMaterial\<close>.
  The \<open>ud_\<close> fields are the keys of \<^verbatim>\<open>group.userData\<close>; \<open>ud_arrow\<close>, \<open>ud_arrow1\<close> and
  \<open>ud_arrow2\<close> refer to a child by its index in \<open>rg_arrows\<close>, \<open>None\<close> when the key is
  absent. \<^verbatim>\<open>userData.pipe\<close> is the pipe child itself, \<open>rg_pipe\<close>.
\<close>

record RelationGroup =
  rg_pipe :: Mesh
  rg_arrows :: "Mesh list"
  rg_pipeMaterial :: Material
  rg_icon :: Vector3
  rg_label :: Vector3
  ud_relation :: "DependencyRelation option"
  ud_from :: Vector3
  ud_to :: Vector3
  ud_startPoint :: Vector3
  ud_endPoint :: Vector3
  ud_direction :: Vector3
  ud_flowParticles :: "SceneFlowParticle list"
  ud_isBidirectional :: bool
  ud_arrow :: "nat option"
  ud_arrow1 :: "nat option"
  ud_arrow2 :: "nat option"

text \<open>
  The particles of a new connector. \<open>rnd i\<close> is the value \<^verbatim>\<open>Math.random()\<close> returns for
  particle \<open>i\<close>.
\<close>

definition new_flowParticles :: "(nat \<Rightarrow> real) \<Rightarrow> bool \<Rightarrow> SceneFlowParticle list" where
  "new_flowParticles rnd isBidirectional =
     (let particleCount = (if isBidirectional then 4 else 3 :: nat) in
      map (\<lambda>i. \<lparr>fp_position = vec3 0 0 0,
                 fp_speed = 0.5 + rnd i * 0.3,
                 fp_offset = real i / real particleCount,
                 fp_direction = (if isBidirectional then (if i mod 2 = 0 then 1 else - 1) else 1)\<rparr>)
          [0..<particleCount])"

text \<open>
  \<^verbatim>\<open>createRelationLine(from, to, relation, allRelations)\<close>; \<open>from'\<close> and \<open>to'\<close> are the
  positions of the two character groups. The arrows are first stored under
  \<^verbatim>\<open>userData.arrow1/arrow2/arrow\<close>, and then \<^verbatim>\<open>group.userData = { relation, from, to, pipe,
  startPoint, endPoint, direction, flowParticles, isBidirectional }\<close> replaces the whole
  object, so the finished group has none of the three arrow keys.
\<close>

definition createRelationLine ::
  "(nat \<Rightarrow> real) \<Rightarrow> Vector3 \<Rightarrow> Vector3 \<Rightarrow> DependencyRelation \<Rightarrow> DependencyRelation list
     \<Rightarrow> RelationGroup" where
  "createRelationLine rnd from' to' relation allRelations =
     (let startPoint = addVectors from' (vec3 0 1 0);
          endPoint = addVectors to' (vec3 0 1 0);
          direction0 = subVectors endPoint startPoint;
          length' = vlength direction0;
          direction = normalize direction0;
          pipeMaterial = \<lparr>mat_kind = MeshStandardMaterial, mat_transparent = True,
                          mat_opacity = strength relation * 0.7,
                          mat_userData = Some empty_userData\<rparr>;
          pipe = (new_Mesh length')
                   \<lparr>mesh_position := multiplyScalar (addVectors startPoint endPoint) 0.5,
                    mesh_axis := direction\<rparr>;
          isBidirectional = isBidirectionalRelation (rel_from relation) (rel_to relation) allRelations;
          arrowLength = 0.8;
          arrows =
            (if isBidirectional then
               [(new_Mesh arrowLength)
                  \<lparr>mesh_position := addVectors startPoint (multiplyScalar direction (arrowLength * 0.5)),
                   mesh_axis := negate direction\<rparr>,
                (new_Mesh arrowLength)
                  \<lparr>mesh_position := subVectors endPoint (multiplyScalar direction (arrowLength * 0.5)),
                   mesh_axis := direction\<rparr>]
             else
               [(new_Mesh arrowLength)
                  \<lparr>mesh_position := subVectors endPoint (multiplyScalar direction (arrowLength * 0.5)),
                   mesh_axis := direction\<rparr>]);
          midX = (vec_x startPoint + vec_x endPoint) / 2;
          midY = (vec_y startPoint + vec_y endPoint) / 2 + 0.5;
          midZ = (vec_z startPoint + vec_z endPoint) / 2
      in \<lparr>rg_pipe = pipe,
          rg_arrows = arrows,
          rg_pipeMaterial = pipeMaterial,
          rg_icon = vec3 midX midY midZ,
          rg_label = vec3 midX (midY - 0.4) midZ,
          ud_relation = Some relation,
          ud_from = from',
          ud_to = to',
          ud_startPoint = startPoint,
          ud_endPoint = endPoint,
          ud_direction = direction,
          ud_flowParticles = new_flowParticles rnd isBidirectional,
          ud_isBidirectional = isBidirectional,
          ud_arrow = None,
          ud_arrow1 = None,
          ud_arrow2 = None\<rparr>)"

section \<open>Dragging: InteractionManager.updateRelationLines\<close>

text \<open>
  One connector of \<^verbatim>\<open>this.relationLines\<close> in the loop of
  \<^verbatim>\<open>updateRelationLines(character, newPosition)\<close>.
\<close>

definition place_arrow :: "Vector3 \<Rightarrow> Vector3 \<Rightarrow> Mesh \<Rightarrow> Mesh" where
  "place_arrow pos axis m = m\<lparr>mesh_position := pos, mesh_axis := axis\<rparr>"

definition updateRelationLine :: "string \<Rightarrow> Vector3 \<Rightarrow> RelationGroup \<Rightarrow> RelationGroup" where
  "updateRelationLine characterFile newPosition grp =
     (case ud_relation grp of
        None \<Rightarrow> grp
      | Some relation \<Rightarrow>
          if rel_from relation = characterFile \<or> rel_to relation = characterFile then
            (let headY = 1;
                 startPoint = (if rel_from relation = characterFile
                               then vec3 (vec_x newPosition) headY (vec_z newPosition)
                               else ud_startPoint grp);
                 endPoint = (if rel_to relation = characterFile
                             then vec3 (vec_x newPosition) headY (vec_z newPosition)
                             else ud_endPoint grp);
                 newDirection0 = subVectors endPoint startPoint;
                 length' = vlength newDirection0;
                 newDirection = normalize newDirection0;
                 pipe = (rg_pipe grp)
                          \<lparr>mesh_position := multiplyScalar (addVectors startPoint endPoint) 0.5,
                           mesh_scale := vec3 1 (length' / 2) 1,
                           mesh_axis := newDirection\<rparr>;
                 arrowLength = 0.5;
                 arrows =
                   (case (ud_isBidirectional grp, ud_arrow1 grp, ud_arrow2 grp) of
                      (True, Some a1, Some a2) \<Rightarrow>
                        (let as1 = (rg_arrows grp)
                               [a1 := place_arrow
                                        (addVectors startPoint (multiplyScalar newDirection (arrowLength * 0.5)))
                                        (negate newDirection) (rg_arrows grp ! a1)]
                         in as1
                               [a2 := place_arrow
                                        (subVectors endPoint (multiplyScalar newDirection (arrowLength * 0.5)))
                                        newDirection (as1 ! a2)])
                    | _ \<Rightarrow>
                        (case ud_arrow grp of
                           Some a \<Rightarrow>
                             (rg_arrows grp)
                               [a := place_arrow
                                       (subVectors endPoint (multiplyScalar newDirection (arrowLength * 0.5)))
                                       newDirection (rg_arrows grp ! a)]
                         | None \<Rightarrow> rg_arrows grp));
                 midX = (vec_x startPoint + vec_x endPoint) / 2;
                 midY = (vec_y startPoint + vec_y endPoint) / 2 + 0.5;
                 midZ = (vec_z startPoint + vec_z endPoint) / 2
             in grp\<lparr>rg_pipe := pipe,
                      rg_arrows := arrows,
                      ud_startPoint := startPoint,
                      ud_endPoint := endPoint,
                      ud_direction := newDirection,
                      rg_icon := vec3 midX midY midZ,
                      rg_label := vec3 midX (midY - 0.4) midZ\<rparr>)
          else grp)"

text \<open>
  \<^verbatim>\<open>updateRelationLines\<close>: \<open>characterFile\<close> is \<^verbatim>\<open>character.userData.character?.originalFile\<close>;
  nothing happens when it is undefined or the empty string (both falsy).
\<close>

definition updateRelationLines ::
  "string option \<Rightarrow> Vector3 \<Rightarrow> RelationGroup list \<Rightarrow> RelationGroup list" where
  "updateRelationLines characterFile newPosition relationLines =
     (case characterFile of
        None \<Rightarrow> relationLines
      | Some f \<Rightarrow> if f = [] then relationLines
                  else map (updateRelationLine f newPosition) relationLines)"

text \<open>
  What is drawn: a cylinder or cone mesh extends along its axis over the height of its
  geometry times its scale along Y; an arrow head's standoff is its distance from the
  endpoint it belongs to.
\<close>

definition rendered_length :: "Mesh \<Rightarrow> real" where
  "rendered_length m = mesh_height m * vec_y (mesh_scale m)"

definition standoff :: "Mesh \<Rightarrow> Vector3 \<Rightarrow> real" where
  "standoff arrow endpoint = distanceTo (mesh_position arrow) endpoint"

text \<open>
  A drag on a small scene: characters A at (0, 0, 0) and B at (4, 0, 0), one relation
  A\<rightarrow>B; B is dragged to (8, 0, 0).
\<close>

definition drag_relation :: DependencyRelation where
  "drag_relation = \<lparr>rel_from = ''A'', rel_to = ''B'', relationType = UNREQUITED_LOVE,
                      strength = 1, description = []\<rparr>"

definition drag_before :: RelationGroup where
  "drag_before = createRelationLine (\<lambda>i. 1 / 2) (vec3 0 0 0) (vec3 4 0 0) drag_relation [drag_relation]"

definition drag_after :: "RelationGroup list" where
  "drag_after = updateRelationLines (Some ''B'') (vec3 8 0 0) [drag_before]"

section \<open>Flow particles\<close>

subsection \<open>SceneManager.animate: the particles of a connector\<close>

text \<open>
  The body of \<^verbatim>\<open>for (const particle of flowParticles)\<close>: advance the offset, wrap it, and
  copy the interpolated point into \<^verbatim>\<open>particle.mesh.position\<close>, the position that is drawn.
\<close>

definition animate_particle :: "real \<Rightarrow> Vector3 \<Rightarrow> Vector3 \<Rightarrow> SceneFlowParticle \<Rightarrow> SceneFlowParticle" where
  "animate_particle delta startPoint endPoint particle =
     (let offset1 = fp_offset particle + fp_speed particle * fp_direction particle * delta;
          offset2 = (if offset1 > 1 then 0 else if offset1 < 0 then 1 else offset1);
          t = offset2;
          position = lerp startPoint endPoint t
      in particle\<lparr>fp_offset := offset2, fp_position := position\<rparr>)"

definition animate_flowParticles :: "real \<Rightarrow> RelationGroup \<Rightarrow> RelationGroup" where
  "animate_flowParticles delta grp =
     grp\<lparr>ud_flowParticles :=
           map (animate_particle delta (ud_startPoint grp) (ud_endPoint grp)) (ud_flowParticles grp)\<rparr>"

subsection \<open>AnimationManager.getFlowParticlePositions\<close>

record FlowParticle =
  p_t :: real
  p_speed :: real
  p_size :: real

text \<open>A \<^verbatim>\<open>THREE.Line\<close>: the position array of its geometry and \<^verbatim>\<open>userData.relation\<close>.\<close>

record Line =
  line_positions :: "real list"
  line_relation :: "DependencyRelation option"

record RenderedParticle =
  rp_position :: Vector3
  rp_color :: nat
  rp_size :: real

definition colorMap :: "SocialRelationType \<Rightarrow> nat" where
  "colorMap ty = (case ty of
       BEST_FRIEND \<Rightarrow> 0xFF6B6B
     | UNREQUITED_LOVE \<Rightarrow> 0x9B59B6
     | TOXIC_RELATIONSHIP \<Rightarrow> 0xFF4500
     | SECRET_ADMIRER \<Rightarrow> 0x3498DB
     | FAN_FOLLOWING \<Rightarrow> 0x2ECC71
     | CONTRACT \<Rightarrow> 0x95A5A6)"

text \<open>The point computed for a particle at progress \<open>t\<close>: a quadratic Bezier expression whose
  control point is the midpoint raised by \<^verbatim>\<open>Math.sin(t * Math.PI) * 1.5\<close>.\<close>

definition arc_position :: "Vector3 \<Rightarrow> Vector3 \<Rightarrow> real \<Rightarrow> Vector3" where
  "arc_position startPoint endPoint t =
     (let midPoint0 = multiplyScalar (addVectors startPoint endPoint) 0.5;
          midPoint = midPoint0\<lparr>vec_y := vec_y midPoint0 + sin (t * pi) * 1.5\<rparr>;
          invT = 1 - t
      in vec3 (invT * invT * vec_x startPoint + 2 * invT * t * vec_x midPoint + t * t * vec_x endPoint)
              (invT * invT * vec_y startPoint + 2 * invT * t * vec_y midPoint + t * t * vec_y endPoint)
              (invT * invT * vec_z startPoint + 2 * invT * t * vec_z midPoint + t * t * vec_z endPoint))"

definition line_particle_positions :: "Line \<Rightarrow> FlowParticle list \<Rightarrow> RenderedParticle list" where
  "line_particle_positions line particles =
     (case line_positions line of
        x0 # y0 # z0 # x1 # y1 # z1 # _ \<Rightarrow>
          map (\<lambda>particle.
                 \<lparr>rp_position = arc_position (vec3 x0 y0 z0) (vec3 x1 y1 z1) (p_t particle),
                  rp_color = (case line_relation line of
                                Some relation \<Rightarrow> colorMap (relationType relation)
                              | None \<Rightarrow> 0xFFFFFF),
                  rp_size = p_size particle\<rparr>)
              particles
      | _ \<Rightarrow> [])"

text \<open>\<open>flowParticles\<close> is the map \<^verbatim>\<open>this.flowParticles\<close>, in insertion order.\<close>

definition getFlowParticlePositions :: "(Line \<times> FlowParticle list) list \<Rightarrow> RenderedParticle list" where
  "getFlowParticlePositions flowParticles =
     concat (map (\<lambda>(line, particles). line_particle_positions line particles) flowParticles)"

text \<open>
  The map \<^verbatim>\<open>flowParticles\<close> of the animation manager that the scene manager owns: it is
  created empty, only \<^verbatim>\<open>AnimationManager.setRelations\<close> adds to it, and the scene manager
  calls \<^verbatim>\<open>setCharacters\<close> and \<^verbatim>\<open>update\<close> only.
\<close>

definition scene_flowParticles :: "(Line \<times> FlowParticle list) list" where
  "scene_flowParticles = []"

text \<open>
  One particle of a connector from (0, 1, 0) to (4, 1, 0), at offset 1/4 with speed 1/2,
  after a frame of 1/2 s: its progress is then 1/2.
\<close>

definition flow_example :: SceneFlowParticle where
  "flow_example = animate_particle (1 / 2) (vec3 0 1 0) (vec3 4 1 0)
     \<lparr>fp_position = vec3 0 0 0, fp_speed = 1 / 2, fp_offset = 1 / 4, fp_direction = 1\<rparr>"

section \<open>SceneManager.mount and SceneManager.dispose\<close>

text \<open>
  The resources of the page. A function object is identified by a number; every call of
  \<^verbatim>\<open>f.bind(this)\<close> creates a new function object, so it takes the next unused number.
  An event listener is registered on a target for an event type with a function object;
  \<^verbatim>\<open>removeEventListener\<close> removes the registration with the same target, type and function
  object, if there is one.
\<close>

datatype EventTarget = Window | Container

record Page =
  listeners :: "(EventTarget \<times> string \<times> nat) list"
  next_function :: nat
  container_children :: "string list"
  body_children :: "string list"
  animation_frame_callbacks :: "nat list"
  renderer_disposed :: bool
  sm_container :: "string option"

definition bind :: "Page \<Rightarrow> nat \<times> Page" where
  "bind pg = (next_function pg, pg\<lparr>next_function := Suc (next_function pg)\<rparr>)"

definition addEventListener :: "EventTarget \<Rightarrow> string \<Rightarrow> nat \<Rightarrow> Page \<Rightarrow> Page" where
  "addEventListener target ty f pg =
     (if (target, ty, f) \<in> set (listeners pg) then pg
      else pg\<lparr>listeners := listeners pg @ [(target, ty, f)]\<rparr>)"

definition removeEventListener :: "EventTarget \<Rightarrow> string \<Rightarrow> nat \<Rightarrow> Page \<Rightarrow> Page" where
  "removeEventListener target ty f pg =
     pg\<lparr>listeners := filter (\<lambda>l. l \<noteq> (target, ty, f)) (listeners pg)\<rparr>"

definition listen_bound :: "EventTarget \<Rightarrow> string \<Rightarrow> Page \<Rightarrow> Page" where
  \<comment> \<open>\<^verbatim>\<open>target.addEventListener(ty, this.handler.bind(this))\<close>\<close>
  "listen_bound target ty pg = (let (f, pg1) = bind pg in addEventListener target ty f pg1)"

text \<open>\<^verbatim>\<open>InteractionManager.setupEvents(container)\<close>\<close>

definition setupEvents :: "Page \<Rightarrow> Page" where
  "setupEvents pg =
     fold (listen_bound Container)
       [''mousemove'', ''click'', ''dblclick'', ''mousedown'', ''mouseup'', ''wheel''] pg"

text \<open>
  \<^verbatim>\<open>mount(container)\<close>. The last step, \<^verbatim>\<open>this.animate()\<close>, begins with
  \<^verbatim>\<open>requestAnimationFrame(this.animate.bind(this))\<close>; the drawing of the frame holds no
  resource and is left out here.
\<close>

definition mount :: "string \<Rightarrow> Page \<Rightarrow> Page" where
  "mount container pg =
     (let pg1 = pg\<lparr>sm_container := Some container\<rparr>;
          pg2 = pg1\<lparr>container_children := container_children pg1 @ [''renderer.domElement'']\<rparr>;
          pg3 = listen_bound Window ''resize'' pg2;
          pg4 = setupEvents pg3;
          (f, pg5) = bind pg4
      in pg5\<lparr>animation_frame_callbacks := animation_frame_callbacks pg5 @ [f]\<rparr>)"

text \<open>
  \<^verbatim>\<open>dispose()\<close>: \<^verbatim>\<open>window.removeEventListener('resize', this.onWindowResize.bind(this))\<close>,
  then \<^verbatim>\<open>clearScene()\<close> (which empties the scene graph and touches nothing of the page),
  \<^verbatim>\<open>renderer.dispose()\<close> and \<^verbatim>\<open>interactionManager.dispose()\<close>, which removes the tooltip and
  the info panel from the document body.
\<close>

definition dispose :: "Page \<Rightarrow> Page" where
  "dispose pg =
     (let (f, pg1) = bind pg;
          pg2 = removeEventListener Window ''resize'' f pg1;
          pg3 = pg2\<lparr>renderer_disposed := True\<rparr>
      in pg3\<lparr>body_children :=
              filter (\<lambda>e. e \<noteq> ''code-actor-tooltip'' \<and> e \<noteq> ''code-actor-info-panel'')
                (body_children pg3)\<rparr>)"

text \<open>The page after \<^verbatim>\<open>new SceneManager()\<close>: the constructor of the interaction manager has
  appended the tooltip and the info panel to the body; nothing listens yet.\<close>

definition new_page :: Page where
  "new_page = \<lparr>listeners = [], next_function = 0, container_children = [],
                body_children = [''code-actor-tooltip'', ''code-actor-info-panel''],
                animation_frame_callbacks = [], renderer_disposed = False, sm_container = None\<rparr>"

section \<open>InteractionManager: selection and network highlight\<close>

text \<open>
  The objects below a character group. \<open>MeshNode m ring cs\<close> is a \<^verbatim>\<open>THREE.Mesh\<close> with
  material \<open>m\<close> (one material or an array) whose \<^verbatim>\<open>userData.isSelectionRing\<close> is \<open>ring\<close>;
  \<open>OtherNode cs\<close> is any other object (a group, a sprite). \<open>cs\<close> are the children.
\<close>

datatype MeshMaterial = Single Material | Multi "Material list"

datatype Object3D = MeshNode MeshMaterial bool "Object3D list" | OtherNode "Object3D list"

text \<open>
  The group of one character. \<open>cg_persona\<close> is the value stored for the group in the map
  \<^verbatim>\<open>this.characters\<close>; \<open>cg_character\<close>, \<open>cg_isSelected\<close> and \<open>cg_isDraggable\<close> are keys of
  \<^verbatim>\<open>group.userData\<close>.
\<close>

record CharacterGroup =
  cg_persona :: CharacterPersona
  cg_character :: "CharacterPersona option"
  cg_isSelected :: bool
  cg_isDraggable :: bool
  cg_children :: "Object3D list"

text \<open>
  The state of the interaction manager. \<open>im_characters\<close> lists the groups of the map
  \<^verbatim>\<open>this.characters\<close> in insertion order; a reference to a group (the hit of the raycaster,
  \<^verbatim>\<open>selectedCharacter\<close>, \<^verbatim>\<open>doubleClickCharacter\<close>) is its index in this list.
  \<open>infoPanel\<close> is the character the info panel shows, \<open>None\<close> while the panel is hidden;
  \<open>click_calls\<close> and \<open>doubleClick_calls\<close> record the calls of the \<^verbatim>\<open>onCharacterClick\<close> and
  \<^verbatim>\<open>onCharacterDoubleClick\<close> callbacks.
\<close>

record InteractionManager =
  im_characters :: "CharacterGroup list"
  im_relations :: "DependencyRelation list"
  im_relationLines :: "RelationGroup list"
  selectedCharacter :: "nat option"
  doubleClickCharacter :: "nat option"
  isDragging :: bool
  infoPanel :: "CharacterPersona option"
  click_calls :: "CharacterPersona list"
  doubleClick_calls :: "CharacterPersona list"

datatype js_error = TypeError

subsection \<open>Selection ring\<close>

fun is_ring :: "Object3D \<Rightarrow> bool" where
  "is_ring (MeshNode m ring cs) = ring"
| "is_ring (OtherNode cs) = False"

text \<open>
  \<^verbatim>\<open>group.traverse(child => { if (child instanceof THREE.Mesh && child.userData?.isSelectionRing)
  { group.remove(child); ... } })\<close>.
  \<^verbatim>\<open>traverse\<close> runs \<^verbatim>\<open>for (let i = 0, l = children.length; i < l; i++) children[i].traverse(cb)\<close>
  over the live array of children, and \<^verbatim>\<open>group.remove(child)\<close> splices a direct child out
  of that array (for an object deeper in the tree it finds no index and removes nothing).
  So a removal shifts the later children down, and reading \<^verbatim>\<open>children[i]\<close> past the
  shortened array yields \<^verbatim>\<open>undefined\<close>, on which \<^verbatim>\<open>.traverse\<close> throws a TypeError.
  \<open>traverse_remove i n cs\<close> is the loop at index \<open>i\<close> with \<open>n\<close> iterations left.
\<close>

fun traverse_remove :: "nat \<Rightarrow> nat \<Rightarrow> Object3D list \<Rightarrow> js_error + Object3D list" where
  "traverse_remove i 0 cs = Inr cs"
| "traverse_remove i (Suc n) cs =
     (if i < length cs then
        (if is_ring (cs ! i) then traverse_remove (Suc i) n (take i cs @ drop (Suc i) cs)
         else traverse_remove (Suc i) n cs)
      else Inl TypeError)"

definition removeSelectionRing :: "CharacterGroup \<Rightarrow> js_error + CharacterGroup" where
  "removeSelectionRing grp =
     (case traverse_remove 0 (length (cg_children grp)) (cg_children grp) of
        Inl e \<Rightarrow> Inl e
      | Inr cs \<Rightarrow> Inr (grp\<lparr>cg_children := cs\<rparr>))"

definition new_ring :: Object3D where
  "new_ring = MeshNode (Single \<lparr>mat_kind = MeshBasicMaterial, mat_transparent = True,
                                 mat_opacity = 0.7, mat_userData = Some empty_userData\<rparr>) True []"

definition addSelectionRing :: "CharacterGroup \<Rightarrow> js_error + CharacterGroup" where
  "addSelectionRing grp =
     (case removeSelectionRing grp of
        Inl e \<Rightarrow> Inl e
      | Inr grp1 \<Rightarrow> Inr (grp1\<lparr>cg_children := cg_children grp1 @ [new_ring]\<rparr>))"

text \<open>\<^verbatim>\<open>clearAllSelections\<close>: the loop over the map, stopped by the first exception.\<close>

fun clear_selections :: "CharacterGroup list \<Rightarrow> js_error + CharacterGroup list" where
  "clear_selections [] = Inr []"
| "clear_selections (mesh # rest) =
     (case removeSelectionRing mesh of
        Inl e \<Rightarrow> Inl e
      | Inr mesh1 \<Rightarrow>
          (case clear_selections rest of
             Inl e \<Rightarrow> Inl e
           | Inr rest1 \<Rightarrow> Inr (mesh1\<lparr>cg_isSelected := False\<rparr> # rest1)))"

definition clearAllSelections :: "InteractionManager \<Rightarrow> js_error + InteractionManager" where
  "clearAllSelections im =
     (case clear_selections (im_characters im) of
        Inl e \<Rightarrow> Inl e
      | Inr cs \<Rightarrow> Inr (im\<lparr>im_characters := cs\<rparr>))"

subsection \<open>Network highlight\<close>

definition toon_or_standard :: "Material \<Rightarrow> bool" where
  "toon_or_standard mat \<longleftrightarrow> mat_kind mat = MeshToonMaterial \<or> mat_kind mat = MeshStandardMaterial"

text \<open>\<^verbatim>\<open>mesh.traverse\<close> with a callback that acts on the material of every mesh.\<close>

fun traverse_meshes :: "(MeshMaterial \<Rightarrow> MeshMaterial) \<Rightarrow> Object3D \<Rightarrow> Object3D" where
  "traverse_meshes f (MeshNode m ring cs) = MeshNode (f m) ring (map (traverse_meshes f) cs)"
| "traverse_meshes f (OtherNode cs) = OtherNode (map (traverse_meshes f) cs)"

definition traverse_group :: "(MeshMaterial \<Rightarrow> MeshMaterial) \<Rightarrow> CharacterGroup \<Rightarrow> CharacterGroup" where
  "traverse_group f grp = grp\<lparr>cg_children := map (traverse_meshes f) (cg_children grp)\<rparr>"

text \<open>\<^verbatim>\<open>mat.transparent = true; mat.opacity = 0.3;\<close>\<close>

definition dim_material :: "Material \<Rightarrow> Material" where
  "dim_material mat =
     (if toon_or_standard mat then mat\<lparr>mat_transparent := True, mat_opacity := 0.3\<rparr> else mat)"

text \<open>\<^verbatim>\<open>mat.transparent = mat.userData?.wasTransparent || false;
  mat.opacity = mat.userData?.originalOpacity || 1;\<close>\<close>

definition restore_material :: "Material \<Rightarrow> Material" where
  "restore_material mat =
     (if toon_or_standard mat then
        mat\<lparr>mat_transparent :=
              (case mat_userData mat of
                 None \<Rightarrow> False
               | Some ud \<Rightarrow> (case wasTransparent ud of None \<Rightarrow> False | Some b \<Rightarrow> b)),
            mat_opacity :=
              (case mat_userData mat of
                 None \<Rightarrow> 1
               | Some ud \<Rightarrow> (case originalOpacity ud of None \<Rightarrow> 1 | Some v \<Rightarrow> or_one v))\<rparr>
      else mat)"

text \<open>\<^verbatim>\<open>if (!child.material.userData) { child.material.userData = { wasTransparent: ...,
  originalOpacity: ... }; } child.material.transparent = false; child.material.opacity = 1;\<close>\<close>

definition cache_and_show_material :: "Material \<Rightarrow> Material" where
  "cache_and_show_material mat =
     (if toon_or_standard mat then
        (let mat1 = (case mat_userData mat of
                       None \<Rightarrow> mat\<lparr>mat_userData := Some \<lparr>wasTransparent = Some (mat_transparent mat),
                                                            originalOpacity = Some (mat_opacity mat)\<rparr>\<rparr>
                     | Some ud \<Rightarrow> mat)
         in mat1\<lparr>mat_transparent := False, mat_opacity := 1\<rparr>)
      else mat)"

definition dim_mesh :: "MeshMaterial \<Rightarrow> MeshMaterial" where
  "dim_mesh m = (case m of Multi mats \<Rightarrow> Multi (map dim_material mats)
                          | Single mat \<Rightarrow> Single (dim_material mat))"

definition show_related_mesh :: "MeshMaterial \<Rightarrow> MeshMaterial" where
  "show_related_mesh m = (case m of Multi mats \<Rightarrow> Multi (map restore_material mats)
                                   | Single mat \<Rightarrow> Single (cache_and_show_material mat))"

definition restore_mesh :: "MeshMaterial \<Rightarrow> MeshMaterial" where
  "restore_mesh m = (case m of Multi mats \<Rightarrow> Multi (map restore_material mats)
                              | Single mat \<Rightarrow> Single (restore_material mat))"

text \<open>
  \<^verbatim>\<open>line.traverse\<close> setting \<^verbatim>\<open>child.material.opacity\<close> on every mesh with a
  \<^verbatim>\<open>MeshStandardMaterial\<close>: in a connector these are the pipe and the arrows, which share
  \<open>rg_pipeMaterial\<close> (the particles have a \<^verbatim>\<open>MeshBasicMaterial\<close>, the icon and label are
  sprites).
\<close>

definition set_line_opacity :: "real \<Rightarrow> RelationGroup \<Rightarrow> RelationGroup" where
  "set_line_opacity v line =
     (if mat_kind (rg_pipeMaterial line) = MeshStandardMaterial
      then line\<lparr>rg_pipeMaterial := (rg_pipeMaterial line)\<lparr>mat_opacity := v\<rparr>\<rparr>
      else line)"

text \<open>
  \<^verbatim>\<open>highlightNetwork(characterFile)\<close>. The first loop collects \<open>relatedFiles\<close> and
  \<open>highlightedLines\<close>; a connector is in \<open>highlightedLines\<close> when its
  \<^verbatim>\<open>userData.relation\<close> is one of the relations that touch the focus (the comparison
  \<^verbatim>\<open>===\<close> of two relation objects is rendered as equality of their fields).
\<close>

definition touches :: "string \<Rightarrow> DependencyRelation \<Rightarrow> bool" where
  "touches characterFile relation \<longleftrightarrow>
     rel_from relation = characterFile \<or> rel_to relation = characterFile"

definition relatedFiles :: "string \<Rightarrow> DependencyRelation list \<Rightarrow> string set" where
  "relatedFiles characterFile relations =
     set (concat (map (\<lambda>relation. [rel_from relation, rel_to relation])
                      (filter (touches characterFile) relations)))"

definition highlighted :: "string \<Rightarrow> DependencyRelation list \<Rightarrow> RelationGroup \<Rightarrow> bool" where
  "highlighted characterFile relations line \<longleftrightarrow>
     (case ud_relation line of
        None \<Rightarrow> False
      | Some r \<Rightarrow> r \<in> set (filter (touches characterFile) relations))"

definition highlightNetwork :: "string \<Rightarrow> InteractionManager \<Rightarrow> InteractionManager" where
  "highlightNetwork characterFile im =
     im\<lparr>im_relationLines :=
          map (\<lambda>line. if highlighted characterFile (im_relations im) line
                       then set_line_opacity 0.9 line
                       else set_line_opacity 0.1 line)
              (im_relationLines im),
        im_characters :=
          map (\<lambda>mesh. if originalFile (cg_persona mesh) \<notin> relatedFiles characterFile (im_relations im)
                       then traverse_group dim_mesh mesh
                       else traverse_group show_related_mesh mesh)
              (im_characters im)\<rparr>"

text \<open>\<^verbatim>\<open>clearHighlightNetwork()\<close>\<close>

definition clearHighlightNetwork :: "InteractionManager \<Rightarrow> InteractionManager" where
  "clearHighlightNetwork im =
     im\<lparr>doubleClickCharacter := None,
        im_characters := map (traverse_group restore_mesh) (im_characters im),
        im_relationLines :=
          map (\<lambda>grp. case ud_relation grp of
                        None \<Rightarrow> grp
                      | Some relation \<Rightarrow> set_line_opacity (strength relation * 0.8) grp)
              (im_relationLines im)\<rparr>"

subsection \<open>Double click\<close>

definition update_group ::
  "nat \<Rightarrow> (CharacterGroup \<Rightarrow> CharacterGroup) \<Rightarrow> InteractionManager \<Rightarrow> InteractionManager" where
  "update_group g f im = im\<lparr>im_characters := (im_characters im)[g := f (im_characters im ! g)]\<rparr>"

definition remove_ring_of :: "nat \<Rightarrow> InteractionManager \<Rightarrow> js_error + InteractionManager" where
  "remove_ring_of g im =
     (case removeSelectionRing (im_characters im ! g) of
        Inl e \<Rightarrow> Inl e
      | Inr grp \<Rightarrow> Inr (update_group g (\<lambda>_. grp) im))"

definition add_ring_to :: "nat \<Rightarrow> InteractionManager \<Rightarrow> js_error + InteractionManager" where
  "add_ring_to g im =
     (case addSelectionRing (im_characters im ! g) of
        Inl e \<Rightarrow> Inl e
      | Inr grp \<Rightarrow> Inr (update_group g (\<lambda>_. grp) im))"

definition unselect :: "CharacterGroup \<Rightarrow> CharacterGroup" where
  "unselect grp = grp\<lparr>cg_isSelected := False, cg_isDraggable := False\<rparr>"

text \<open>
  \<^verbatim>\<open>onDoubleClick(event)\<close>. \<open>hit\<close> is the group of the first intersection of the raycaster
  with the registered character meshes, \<open>None\<close> when the ray meets none.
\<close>

definition onDoubleClick :: "nat option \<Rightarrow> InteractionManager \<Rightarrow> js_error + InteractionManager" where
  "onDoubleClick hit im =
     (case hit of
        Some g \<Rightarrow>
          if selectedCharacter im = Some g then
            (case remove_ring_of g im of
               Inl e \<Rightarrow> Inl e
             | Inr im1 \<Rightarrow> Inr (update_group g unselect (im1\<lparr>selectedCharacter := None\<rparr>)))
          else
            (case (case selectedCharacter im of
                     None \<Rightarrow> Inr im
                   | Some p \<Rightarrow>
                       (case remove_ring_of p im of
                          Inl e \<Rightarrow> Inl e
                        | Inr im0 \<Rightarrow> Inr (update_group p unselect im0))) of
               Inl e \<Rightarrow> Inl e
             | Inr im1 \<Rightarrow>
                 (case add_ring_to g (im1\<lparr>selectedCharacter := Some g\<rparr>) of
                    Inl e \<Rightarrow> Inl e
                  | Inr im2 \<Rightarrow>
                      (let im3 = update_group g (\<lambda>grp. grp\<lparr>cg_isSelected := True, cg_isDraggable := True\<rparr>) im2
                       in Inr (im3\<lparr>doubleClick_calls :=
                                      doubleClick_calls im3 @ [cg_persona (im_characters im3 ! g)]\<rparr>))))
      | None \<Rightarrow>
          (case clearAllSelections im of
             Inl e \<Rightarrow> Inl e
           | Inr im1 \<Rightarrow> Inr (clearHighlightNetwork im1)))"

subsection \<open>Click\<close>


subsection \<open>Selection rings in the scene\<close>

text \<open>The number of selection-ring meshes in the scene, at any depth below the character
  groups.\<close>

fun ring_count :: "Object3D \<Rightarrow> nat" where
  "ring_count (MeshNode m ring cs) = (if ring then 1 else 0) + sum_list (map ring_count cs)"
| "ring_count (OtherNode cs) = sum_list (map ring_count cs)"

definition group_rings :: "CharacterGroup \<Rightarrow> nat" where
  "group_rings grp = sum_list (map ring_count (cg_children grp))"

definition scene_rings :: "InteractionManager \<Rightarrow> nat" where
  "scene_rings im = sum_list (map group_rings (im_characters im))"

subsection \<open>Observations and example scenes\<close>

text \<open>The opacity and transparency fields of every material below the character groups and
  of every connector.\<close>

definition material_fields :: "Material \<Rightarrow> bool \<times> real" where
  "material_fields mat = (mat_transparent mat, mat_opacity mat)"

fun object_fields :: "Object3D \<Rightarrow> (bool \<times> real) list" where
  "object_fields (MeshNode m ring cs) =
     (case m of Single mat \<Rightarrow> [material_fields mat] | Multi mats \<Rightarrow> map material_fields mats)
     @ concat (map object_fields cs)"
| "object_fields (OtherNode cs) = concat (map object_fields cs)"

definition opacity_fields :: "InteractionManager \<Rightarrow> (bool \<times> real) list \<times> (bool \<times> real) list" where
  "opacity_fields im =
     (concat (map (\<lambda>grp. concat (map object_fields (cg_children grp))) (im_characters im)),
      map (\<lambda>line. material_fields (rg_pipeMaterial line)) (im_relationLines im))"

definition toon_mesh :: "bool \<Rightarrow> real \<Rightarrow> Object3D" where
  \<comment> \<open>\<^verbatim>\<open>new THREE.Mesh(geo, new THREE.MeshToonMaterial({ transparent, opacity }))\<close>\<close>
  "toon_mesh tr op =
     MeshNode (Single \<lparr>mat_kind = MeshToonMaterial, mat_transparent = tr, mat_opacity = op,
                        mat_userData = Some empty_userData\<rparr>) False []"

definition new_character :: "string \<Rightarrow> Object3D list \<Rightarrow> CharacterGroup" where
  "new_character file parts =
     (let persona = example_persona file
      in \<lparr>cg_persona = persona, cg_character = Some persona, cg_isSelected = False,
          cg_isDraggable = True, cg_children = [OtherNode parts]\<rparr>)"

text \<open>
  A scene of three characters: a.ts and c.ts with an opaque body, b.ts with an opaque body
  and a transparent wing (\<^verbatim>\<open>transparent: true, opacity: 0.7\<close>, as the helper character has),
  and one relation a.ts\<rightarrow>c.ts of strength 1 with its connector.
\<close>

definition hl_relation :: DependencyRelation where
  "hl_relation = \<lparr>rel_from = ''a.ts'', rel_to = ''c.ts'', relationType = BEST_FRIEND,
                    strength = 1, description = []\<rparr>"

definition hl_scene :: InteractionManager where
  "hl_scene =
     \<lparr>im_characters = [new_character ''a.ts'' [toon_mesh False 1],
                       new_character ''b.ts'' [toon_mesh False 1, toon_mesh True 0.7],
                       new_character ''c.ts'' [toon_mesh False 1]],
      im_relations = [hl_relation],
      im_relationLines = [createRelationLine (\<lambda>i. 1 / 2) (vec3 0 0 0) (vec3 4 0 0) hl_relation [hl_relation]],
      selectedCharacter = None,
      doubleClickCharacter = None,
      isDragging = False,
      infoPanel = None,
      click_calls = [],
      doubleClick_calls = []\<rparr>"

text \<open>
  Two characters, nothing selected; and the same scene after a double click on the first
  one has selected it.
\<close>

definition sel_idle :: InteractionManager where
  "sel_idle =
     \<lparr>im_characters = [new_character ''a.ts'' [toon_mesh False 1],
                       new_character ''b.ts'' [toon_mesh False 1]],
      im_relations = [], im_relationLines = [],
      selectedCharacter = None, doubleClickCharacter = None, isDragging = False,
      infoPanel = None, click_calls = [], doubleClick_calls = []\<rparr>"

definition sel_selected :: InteractionManager where
  "sel_selected =
     \<lparr>im_characters =
        [(new_character ''a.ts'' [toon_mesh False 1])
           \<lparr>cg_isSelected := True, cg_isDraggable := True,
            cg_children := [OtherNode [toon_mesh False 1], new_ring]\<rparr>,
         new_character ''b.ts'' [toon_mesh False 1]],
      im_relations = [], im_relationLines = [],
      selectedCharacter = Some 0, doubleClickCharacter = None, isDragging = False,
      infoPanel = None, click_calls = [],
      doubleClick_calls = [cg_persona (new_character ''a.ts'' [toon_mesh False 1])]\<rparr>"


section \<open>JavaScript numbers in the layout\<close>

text \<open>
  The layout is followed on the values a JavaScript number can take: a finite double,
  \<^verbatim>\<open>Infinity\<close>, \<^verbatim>\<open>-Infinity\<close> or \<^verbatim>\<open>NaN\<close> (the two zeros are not told apart; the layout
  never divides by a computed zero, the only place where their sign would show).
  The arithmetic is that of IEEE 754: the result of an operation on finite operands is the
  exact result rounded to a double, which is \<^verbatim>\<open>Infinity\<close> or \<^verbatim>\<open>-Infinity\<close> when the exact
  result is too large, and the operations on infinities and \<^verbatim>\<open>NaN\<close> follow the standard.
  The rounding \<open>fl\<close> and the values of \<^verbatim>\<open>Math.cos\<close> and \<^verbatim>\<open>Math.sin\<close> on a finite double
  belong to the platform and are parameters.
\<close>

datatype jsnum = Fin real | PInf | NInf | NaN

record FloatingPoint =
  fl :: "real \<Rightarrow> jsnum"
  math_cos :: "real \<Rightarrow> real"
  math_sin :: "real \<Rightarrow> real"

text \<open>A numeric literal of the source, and \<^verbatim>\<open>Math.PI\<close>, denote the double nearest to them.\<close>

definition lit :: "FloatingPoint \<Rightarrow> real \<Rightarrow> jsnum" where
  "lit fp r = fl fp r"

fun is_negative :: "jsnum \<Rightarrow> bool" where
  "is_negative (Fin a) = (a < 0)"
| "is_negative NInf = True"
| "is_negative PInf = False"
| "is_negative NaN = False"

definition signed_infinity :: "bool \<Rightarrow> jsnum" where
  "signed_infinity negative = (if negative then NInf else PInf)"

fun jneg :: "jsnum \<Rightarrow> jsnum" where
  "jneg (Fin a) = Fin (- a)"
| "jneg PInf = NInf"
| "jneg NInf = PInf"
| "jneg NaN = NaN"

fun jadd :: "FloatingPoint \<Rightarrow> jsnum \<Rightarrow> jsnum \<Rightarrow> jsnum" where
  "jadd fp (Fin a) (Fin b) = fl fp (a + b)"
| "jadd fp NaN y = NaN"
| "jadd fp x NaN = NaN"
| "jadd fp PInf NInf = NaN"
| "jadd fp NInf PInf = NaN"
| "jadd fp PInf y = PInf"
| "jadd fp NInf y = NInf"
| "jadd fp x PInf = PInf"
| "jadd fp x NInf = NInf"

definition jsub :: "FloatingPoint \<Rightarrow> jsnum \<Rightarrow> jsnum \<Rightarrow> jsnum" where
  "jsub fp x y = jadd fp x (jneg y)"

fun jmul :: "FloatingPoint \<Rightarrow> jsnum \<Rightarrow> jsnum \<Rightarrow> jsnum" where
  "jmul fp (Fin a) (Fin b) = fl fp (a * b)"
| "jmul fp NaN y = NaN"
| "jmul fp x NaN = NaN"
| "jmul fp x y =
     (if x = Fin 0 \<or> y = Fin 0 then NaN
      else signed_infinity (is_negative x \<noteq> is_negative y))"

fun jdiv :: "FloatingPoint \<Rightarrow> jsnum \<Rightarrow> jsnum \<Rightarrow> jsnum" where
  "jdiv fp (Fin a) (Fin b) =
     (if b = 0 then (if a = 0 then NaN else signed_infinity (a < 0))
      else fl fp (a / b))"
| "jdiv fp NaN y = NaN"
| "jdiv fp x NaN = NaN"
| "jdiv fp (Fin a) y = Fin 0"
| "jdiv fp x (Fin b) = signed_infinity (is_negative x \<noteq> (b < 0))"
| "jdiv fp x y = NaN"

fun jsqrt :: "FloatingPoint \<Rightarrow> jsnum \<Rightarrow> jsnum" where
  "jsqrt fp (Fin a) = (if a < 0 then NaN else fl fp (sqrt a))"
| "jsqrt fp PInf = PInf"
| "jsqrt fp NInf = NaN"
| "jsqrt fp NaN = NaN"

text \<open>\<^verbatim>\<open>x || 1\<close>: zero and \<^verbatim>\<open>NaN\<close> are falsy.\<close>

fun jor_one :: "jsnum \<Rightarrow> jsnum" where
  "jor_one (Fin a) = (if a = 0 then Fin 1 else Fin a)"
| "jor_one NaN = Fin 1"
| "jor_one PInf = PInf"
| "jor_one NInf = NInf"

text \<open>\<^verbatim>\<open>Math.max(x, y)\<close>, \<^verbatim>\<open>Math.cos(x)\<close> and \<^verbatim>\<open>Math.sin(x)\<close>\<close>

fun jmax :: "jsnum \<Rightarrow> jsnum \<Rightarrow> jsnum" where
  "jmax (Fin a) (Fin b) = Fin (max a b)"
| "jmax NaN y = NaN"
| "jmax x NaN = NaN"
| "jmax PInf y = PInf"
| "jmax x PInf = PInf"
| "jmax NInf y = y"
| "jmax x NInf = x"

fun jcos :: "FloatingPoint \<Rightarrow> jsnum \<Rightarrow> jsnum" where
  "jcos fp (Fin a) = Fin (math_cos fp a)"
| "jcos fp x = NaN"

fun jsin :: "FloatingPoint \<Rightarrow> jsnum \<Rightarrow> jsnum" where
  "jsin fp (Fin a) = Fin (math_sin fp a)"
| "jsin fp x = NaN"

fun is_finite :: "jsnum \<Rightarrow> bool" where
  "is_finite (Fin a) = True"
| "is_finite x = False"

section \<open>SceneManager.calculateLayout\<close>

text \<open>
  A JavaScript \<^verbatim>\<open>Map\<close> with string keys, in insertion order: \<^verbatim>\<open>set\<close> replaces the value of a
  key that is present where it stands, and appends a new key; \<^verbatim>\<open>get\<close> is \<open>map_of\<close>.
\<close>

fun map_set :: "string \<Rightarrow> 'v \<Rightarrow> (string \<times> 'v) list \<Rightarrow> (string \<times> 'v) list" where
  "map_set k v [] = [(k, v)]"
| "map_set k v ((k', v') # m) = (if k = k' then (k, v) # m else (k', v') # map_set k v m)"

text \<open>Updating in place the object stored under a key (nothing happens without the key).\<close>

definition update_value :: "string \<Rightarrow> ('v \<Rightarrow> 'v) \<Rightarrow> (string \<times> 'v) list \<Rightarrow> (string \<times> 'v) list" where
  "update_value k f m = map (\<lambda>(k', v). if k' = k then (k', f v) else (k', v)) m"

record LayoutNode =
  node_x :: jsnum
  node_z :: jsnum
  node_vx :: jsnum
  node_vz :: jsnum

text \<open>\<^verbatim>\<open>Math.sqrt(dx * dx + dz * dz) || 1\<close>\<close>

definition planar_distance :: "FloatingPoint \<Rightarrow> jsnum \<Rightarrow> jsnum \<Rightarrow> jsnum" where
  "planar_distance fp dx dz = jor_one (jsqrt fp (jadd fp (jmul fp dx dx) (jmul fp dz dz)))"

text \<open>\<^verbatim>\<open>const radius = Math.max(10, Math.sqrt(characters.length) * 3);\<close>\<close>

definition layout_radius :: "FloatingPoint \<Rightarrow> CharacterPersona list \<Rightarrow> jsnum" where
  "layout_radius fp characters =
     jmax (lit fp 10) (jmul fp (jsqrt fp (Fin (real (length characters)))) (lit fp 3))"

text \<open>The circular start: the loop \<^verbatim>\<open>for (let i = 0; i < characters.length; i++)\<close>.\<close>

definition initial_nodes :: "FloatingPoint \<Rightarrow> CharacterPersona list \<Rightarrow> (string \<times> LayoutNode) list" where
  "initial_nodes fp characters =
     (let radius = layout_radius fp characters in
      fold (\<lambda>i nodes.
              (let angle = jmul fp (jmul fp (jdiv fp (Fin (real i)) (Fin (real (length characters))))
                                            (lit fp pi))
                                   (lit fp 2);
                   char = characters ! i
               in map_set (originalFile char)
                    \<lparr>node_x = jmul fp (jcos fp angle) radius,
                     node_z = jmul fp (jsin fp angle) radius,
                     node_vx = Fin 0, node_vz = Fin 0\<rparr> nodes))
           [0..<length characters] [])"

text \<open>
  Repulsion: the body of the inner loop, for \<open>node1\<close> against \<open>node2\<close>:
  \<^verbatim>\<open>force = (k * k) / dist; node1.vx += (dx / dist) * force * 0.1;\<close> and likewise for \<open>vz\<close>.
\<close>

definition repel :: "FloatingPoint \<Rightarrow> jsnum \<Rightarrow> LayoutNode \<Rightarrow> LayoutNode \<Rightarrow> LayoutNode" where
  "repel fp k node1 node2 =
     (let dx = jsub fp (node_x node1) (node_x node2);
          dz = jsub fp (node_z node1) (node_z node2);
          dist = planar_distance fp dx dz;
          force = jdiv fp (jmul fp k k) dist
      in node1\<lparr>node_vx := jadd fp (node_vx node1)
                               (jmul fp (jmul fp (jdiv fp dx dist) force) (lit fp 0.1)),
               node_vz := jadd fp (node_vz node1)
                               (jmul fp (jmul fp (jdiv fp dz dist) force) (lit fp 0.1))\<rparr>)"

text \<open>
  The inner loop \<^verbatim>\<open>for (const [id2, node2] of nodes)\<close> for one \<open>node1\<close>, and the outer loop.
  The loops change velocities only and read positions only, so the \<open>node2\<close> they read are
  those of the map as it was when the loops began.
\<close>

fun repel_from_all ::
  "FloatingPoint \<Rightarrow> jsnum \<Rightarrow> string \<Rightarrow> LayoutNode \<Rightarrow> (string \<times> LayoutNode) list \<Rightarrow> LayoutNode" where
  "repel_from_all fp k id1 node1 [] = node1"
| "repel_from_all fp k id1 node1 ((id2, node2) # rest) =
     (if id1 = id2 then repel_from_all fp k id1 node1 rest
      else repel_from_all fp k id1 (repel fp k node1 node2) rest)"

definition repulsion :: "FloatingPoint \<Rightarrow> jsnum \<Rightarrow> (string \<times> LayoutNode) list \<Rightarrow> (string \<times> LayoutNode) list" where
  "repulsion fp k nodes = map (\<lambda>(id1, node1). (id1, repel_from_all fp k id1 node1 nodes)) nodes"

text \<open>
  Attraction: the pull \<open>(fx, fz)\<close> of one relation,
  \<^verbatim>\<open>force = (dist * dist) / k; fx = (dx / dist) * force * 0.01;\<close>, and the loop over the
  relations. \<open>node1\<close> gains the pull and then \<open>node2\<close> loses it; when both are the same
  object the second update acts on the result of the first.
\<close>

definition attraction :: "FloatingPoint \<Rightarrow> jsnum \<Rightarrow> LayoutNode \<Rightarrow> LayoutNode \<Rightarrow> jsnum \<times> jsnum" where
  "attraction fp k node1 node2 =
     (let dx = jsub fp (node_x node2) (node_x node1);
          dz = jsub fp (node_z node2) (node_z node1);
          dist = planar_distance fp dx dz;
          force = jdiv fp (jmul fp dist dist) k
      in (jmul fp (jmul fp (jdiv fp dx dist) force) (lit fp 0.01),
          jmul fp (jmul fp (jdiv fp dz dist) force) (lit fp 0.01)))"

definition attract ::
  "FloatingPoint \<Rightarrow> jsnum \<Rightarrow> DependencyRelation \<Rightarrow> (string \<times> LayoutNode) list \<Rightarrow> (string \<times> LayoutNode) list" where
  "attract fp k rel nodes =
     (case (map_of nodes (rel_from rel), map_of nodes (rel_to rel)) of
        (Some node1, Some node2) \<Rightarrow>
          (let (fx, fz) = attraction fp k node1 node2
           in update_value (rel_to rel)
                (\<lambda>n. n\<lparr>node_vx := jsub fp (node_vx n) fx, node_vz := jsub fp (node_vz n) fz\<rparr>)
                (update_value (rel_from rel)
                   (\<lambda>n. n\<lparr>node_vx := jadd fp (node_vx n) fx, node_vz := jadd fp (node_vz n) fz\<rparr>)
                   nodes))
      | _ \<Rightarrow> nodes)"

definition attractions ::
  "FloatingPoint \<Rightarrow> jsnum \<Rightarrow> DependencyRelation list \<Rightarrow> (string \<times> LayoutNode) list
     \<Rightarrow> (string \<times> LayoutNode) list" where
  "attractions fp k relations nodes = fold (attract fp k) relations nodes"

text \<open>The pull toward the centre, \<^verbatim>\<open>node.vx -= (node.x / dist) * 0.5\<close>, and the damped
  integration step.\<close>

definition center :: "FloatingPoint \<Rightarrow> LayoutNode \<Rightarrow> LayoutNode" where
  "center fp node =
     (let dist = planar_distance fp (node_x node) (node_z node)
      in node\<lparr>node_vx := jsub fp (node_vx node) (jmul fp (jdiv fp (node_x node) dist) (lit fp 0.5)),
              node_vz := jsub fp (node_vz node) (jmul fp (jdiv fp (node_z node) dist) (lit fp 0.5))\<rparr>)"

definition integrate :: "FloatingPoint \<Rightarrow> LayoutNode \<Rightarrow> LayoutNode" where
  "integrate fp node =
     (let vx = jmul fp (node_vx node) (lit fp 0.7);
          vz = jmul fp (node_vz node) (lit fp 0.7)
      in \<lparr>node_x = jadd fp (node_x node) vx, node_z = jadd fp (node_z node) vz,
          node_vx = vx, node_vz = vz\<rparr>)"

definition for_each_node :: "(LayoutNode \<Rightarrow> LayoutNode) \<Rightarrow> (string \<times> LayoutNode) list \<Rightarrow> (string \<times> LayoutNode) list" where
  \<comment> \<open>\<^verbatim>\<open>for (const node of nodes.values()) { ... }\<close> with a body that changes \<open>node\<close> only\<close>
  "for_each_node f nodes = map (\<lambda>(id', node). (id', f node)) nodes"

definition layout_iteration ::
  "FloatingPoint \<Rightarrow> jsnum \<Rightarrow> DependencyRelation list \<Rightarrow> (string \<times> LayoutNode) list
     \<Rightarrow> (string \<times> LayoutNode) list" where
  "layout_iteration fp k relations nodes =
     for_each_node (integrate fp)
       (for_each_node (center fp)
          (attractions fp k relations (repulsion fp k nodes)))"

text \<open>\<^verbatim>\<open>for (let iter = 0; iter < iterations; iter++)\<close>\<close>

fun layout_iterations ::
  "nat \<Rightarrow> FloatingPoint \<Rightarrow> jsnum \<Rightarrow> DependencyRelation list \<Rightarrow> (string \<times> LayoutNode) list
     \<Rightarrow> (string \<times> LayoutNode) list" where
  "layout_iterations 0 fp k relations nodes = nodes"
| "layout_iterations (Suc n) fp k relations nodes =
     layout_iterations n fp k relations (layout_iteration fp k relations nodes)"

definition calculateLayout ::
  "FloatingPoint \<Rightarrow> CharacterPersona list \<Rightarrow> DependencyRelation list \<Rightarrow> (string \<times> jsnum \<times> jsnum) list" where
  "calculateLayout fp characters relations =
     (let radius = layout_radius fp characters;
          nodes = initial_nodes fp characters;
          iterations = 100;
          k = jmul fp radius (lit fp 2);
          nodes' = layout_iterations iterations fp k relations nodes
      in map (\<lambda>(id', node). (id', node_x node, node_z node)) nodes')"

section \<open>SceneManager.loadAnalysis and SceneManager.createRelationLines\<close>

text \<open>
  The values of \<^verbatim>\<open>Math.random()\<close> are given by the place of the call: \<open>rnd_particle i j\<close> for
  particle \<open>j\<close> of the connector of relation number \<open>i\<close>, and \<open>rnd_animation id n\<close> for the
  \<open>n\<close>-th number drawn for the animation state of character \<open>id\<close>.
\<close>

record RandomSource =
  rnd_particle :: "nat \<Rightarrow> nat \<Rightarrow> real"
  rnd_animation :: "string \<Rightarrow> nat \<Rightarrow> real"

text \<open>
  A character group in the scene, as far as loading is concerned: its persona and its code
  scale (keys of \<^verbatim>\<open>userData\<close>) and its position, whose coordinates come from the layout and
  are JavaScript numbers. The meshes that \<^verbatim>\<open>CharacterMeshGenerator.generateCharacter\<close> builds
  below the group are not represented.
\<close>

record JsVector3 =
  js_x :: jsnum
  js_y :: jsnum
  js_z :: jsnum

record SceneCharacter =
  sc_character :: CharacterPersona
  sc_codeScale :: real
  sc_position :: JsVector3

definition generateCharacter :: "CharacterPersona \<Rightarrow> SceneCharacter" where
  "generateCharacter character =
     (let codeScale = calculateScaleFromCodeSize (linesOfCode (stats character))
      in \<lparr>sc_character = character, sc_codeScale = codeScale,
          sc_position = \<lparr>js_x = Fin 0, js_y = Fin (0 / or_one codeScale), js_z = Fin 0\<rparr>\<rparr>)"

record CharacterAnimationState =
  baseY :: jsnum
  floatOffset :: real
  floatSpeed :: real
  breathOffset :: real
  isSick :: bool
  healthLevel :: Health

record AnalysisResult =
  ar_characters :: "CharacterPersona list"
  ar_relations :: "DependencyRelation list"

text \<open>
  The scene manager: its maps \<^verbatim>\<open>characters\<close> and \<^verbatim>\<open>relations\<close> (whose members are the
  character groups and connectors of the scene), the animation states of its animation
  manager, the relation list of its interaction manager, and the lines written to the
  console. The geometry of a connector is represented when both its end points have finite
  coordinates (\<open>Some\<close> of the group that \<^verbatim>\<open>createRelationLine\<close> builds); a connector built on
  a non-finite position is \<open>None\<close>.
\<close>

record SceneManager =
  sm_characters :: "(string \<times> SceneCharacter) list"
  sm_relations :: "RelationGroup option list"
  characterAnimations :: "(string \<times> CharacterAnimationState) list"
  interaction_relations :: "DependencyRelation list"
  console :: "string list"

definition clearScene :: "SceneManager \<Rightarrow> SceneManager" where
  "clearScene sm = sm\<lparr>sm_characters := [], sm_relations := [], interaction_relations := []\<rparr>"

definition finite_vector :: "JsVector3 \<Rightarrow> Vector3 option" where
  "finite_vector p =
     (case (js_x p, js_y p, js_z p) of
        (Fin a, Fin b, Fin c) \<Rightarrow> Some (vec3 a b c)
      | _ \<Rightarrow> None)"

text \<open>The loop \<^verbatim>\<open>for (const relation of relations)\<close> of \<^verbatim>\<open>createRelationLines\<close>, at relation
  number \<open>i\<close>; \<open>allRelations\<close> is the whole list.\<close>

fun createRelationLines_from ::
  "nat \<Rightarrow> (nat \<Rightarrow> nat \<Rightarrow> real) \<Rightarrow> DependencyRelation list \<Rightarrow> DependencyRelation list
     \<Rightarrow> SceneManager \<Rightarrow> SceneManager" where
  "createRelationLines_from i rnd allRelations [] sm = sm"
| "createRelationLines_from i rnd allRelations (relation # rest) sm =
     (case (map_of (sm_characters sm) (rel_from relation), map_of (sm_characters sm) (rel_to relation)) of
        (Some fromChar, Some toChar) \<Rightarrow>
          (let line = (case (finite_vector (sc_position fromChar), finite_vector (sc_position toChar)) of
                         (Some from', Some to') \<Rightarrow>
                           Some (createRelationLine (rnd i) from' to' relation allRelations)
                       | _ \<Rightarrow> None)
           in createRelationLines_from (Suc i) rnd allRelations rest
                (sm\<lparr>sm_relations := sm_relations sm @ [line]\<rparr>))
      | _ \<Rightarrow> createRelationLines_from (Suc i) rnd allRelations rest sm)"

definition createRelationLines ::
  "(nat \<Rightarrow> nat \<Rightarrow> real) \<Rightarrow> DependencyRelation list \<Rightarrow> SceneManager \<Rightarrow> SceneManager" where
  "createRelationLines rnd relations sm = createRelationLines_from 0 rnd relations relations sm"

text \<open>The loop of \<^verbatim>\<open>loadAnalysis\<close> that creates and places the characters:
  \<^verbatim>\<open>const pos = positions.get(character.originalFile) || { x: 0, z: 0 };
  charMesh.position.set(pos.x, 0, pos.z);\<close>\<close>

definition place_character ::
  "(string \<times> jsnum \<times> jsnum) list \<Rightarrow> CharacterPersona \<Rightarrow> SceneManager \<Rightarrow> SceneManager" where
  "place_character positions character sm =
     (let charMesh = generateCharacter character;
          pos = (case map_of positions (originalFile character) of
                   Some p \<Rightarrow> p | None \<Rightarrow> (Fin 0, Fin 0));
          charMesh1 = charMesh\<lparr>sc_position := \<lparr>js_x = fst pos, js_y = Fin 0, js_z = snd pos\<rparr>\<rparr>
      in sm\<lparr>sm_characters := map_set (originalFile character) charMesh1 (sm_characters sm)\<rparr>)"

text \<open>\<^verbatim>\<open>AnimationManager.setCharacters(characters)\<close>\<close>

definition setCharacters :: "(string \<Rightarrow> nat \<Rightarrow> real) \<Rightarrow> SceneManager \<Rightarrow> SceneManager" where
  "setCharacters rnd sm =
     sm\<lparr>characterAnimations :=
          fold (\<lambda>(id', char) anims.
                  map_set id'
                    \<lparr>baseY = js_y (sc_position char),
                     floatOffset = rnd id' 0 * pi * 2,
                     floatSpeed = 0.5 + rnd id' 1 * 0.5,
                     breathOffset = rnd id' 2 * pi * 2,
                     isSick = (health (sc_character char) \<noteq> Excellent \<and> health (sc_character char) \<noteq> Good),
                     healthLevel = health (sc_character char)\<rparr> anims)
               (sm_characters sm) (characterAnimations sm)\<rparr>"

text \<open>\<^verbatim>\<open>loadAnalysis(result)\<close>\<close>

definition loadAnalysis ::
  "FloatingPoint \<Rightarrow> RandomSource \<Rightarrow> AnalysisResult \<Rightarrow> SceneManager \<Rightarrow> SceneManager" where
  "loadAnalysis fp rnd result sm =
     (let sm1 = clearScene sm;
          positions = calculateLayout fp (ar_characters result) (ar_relations result);
          sm2 = fold (place_character positions) (ar_characters result) sm1;
          sm3 = createRelationLines (rnd_particle rnd) (ar_relations result) sm2;
          sm4 = setCharacters (rnd_animation rnd) sm3
      in sm4\<lparr>interaction_relations := ar_relations result\<rparr>)"

text \<open>The layout position of every character of the scene, by id.\<close>

definition layout_positions :: "SceneManager \<Rightarrow> (string \<times> jsnum \<times> jsnum) list" where
  "layout_positions sm =
     map (\<lambda>(id', char). (id', js_x (sc_position char), js_z (sc_position char))) (sm_characters sm)"

text \<open>The relations of a list that \<^verbatim>\<open>createRelationLines\<close> skips in a scene: those whose
  source or target is no character of the scene.\<close>

definition resolvable :: "SceneManager \<Rightarrow> DependencyRelation \<Rightarrow> bool" where
  "resolvable sm relation \<longleftrightarrow>
     map_of (sm_characters sm) (rel_from relation) \<noteq> None
     \<and> map_of (sm_characters sm) (rel_to relation) \<noteq> None"

definition skipped :: "SceneManager \<Rightarrow> DependencyRelation list \<Rightarrow> nat" where
  "skipped sm relations = length (filter (\<lambda>r. \<not> resolvable sm r) relations)"

text \<open>Example input: a scene with the single character a.ts and a relation from it to a
  file that is no character.\<close>

definition fixed_random :: "nat \<Rightarrow> nat \<Rightarrow> real" where
  "fixed_random i j = 1 / 2"

definition lone_scene :: SceneManager where
  "lone_scene =
     \<lparr>sm_characters =
        [(''a.ts'', (generateCharacter (example_persona ''a.ts''))
                      \<lparr>sc_position := \<lparr>js_x = Fin 10, js_y = Fin 0, js_z = Fin 0\<rparr>\<rparr>)],
      sm_relations = [], characterAnimations = [], interaction_relations = [], console = []\<rparr>"

definition dangling_relation :: DependencyRelation where
  "dangling_relation = \<lparr>rel_from = ''a.ts'', rel_to = ''missing.ts'', relationType = FAN_FOLLOWING,
                          strength = 1 / 2, description = []\<rparr>"

section \<open>Theorems\<close>

lemmas vec_simps = vec3_def addVectors_def subVectors_def multiplyScalar_def negate_def
  normalize_def or_one_def distanceTo_def vlength_def lerp_def

lemma example_persona_simps [simp]:
  "originalFile (example_persona f) = f"
  "health (example_persona f) = Good"
  "linesOfCode (stats (example_persona f)) = 100"
  by (simp_all add: example_persona_def)

subsection \<open>Code-size scale\<close>

text \<open>
  C10. For every non-negative number of lines of code the code-size scale factor lies in
  the interval [1, 1.5]: the expression before clamping is at least 1, so the lower clamp
  bound 0.6 is never the value returned.
\<close>

theorem code_scale_range:
  assumes "0 \<le> loc"
  shows "1 \<le> baseScale loc
       \<and> 1 \<le> calculateScaleFromCodeSize loc
       \<and> calculateScaleFromCodeSize loc \<le> 1.5
       \<and> calculateScaleFromCodeSize loc \<noteq> 0.6"
proof -
  from assms have b: "1 \<le> baseScale loc"
    by (simp add: baseScale_def min_def)
  then show ?thesis
    by (simp add: calculateScaleFromCodeSize_def max_def min_def)
qed

theorem code_scale_range_witness:
  "(0::real) \<le> 250 \<and> calculateScaleFromCodeSize 250 = 1.05
   \<and> 1 \<le> calculateScaleFromCodeSize 250 \<and> calculateScaleFromCodeSize 250 \<le> 1.5
   \<and> calculateScaleFromCodeSize 250 \<noteq> 0.6"
  using code_scale_range [of 250]
  by (simp add: calculateScaleFromCodeSize_def baseScale_def)

subsection \<open>Bidirectional relations\<close>

lemma some_iff: "some p xs \<longleftrightarrow> (\<exists>x \<in> set xs. p x)"
  by (induction xs) auto

lemma createRelationLine_flag:
  "ud_isBidirectional (createRelationLine rnd a b r rels)
     = isBidirectionalRelation (rel_from r) (rel_to r) rels"
  by (simp add: createRelationLine_def Let_def)

text \<open>
  C8. A relation A\<rightarrow>B is flagged bidirectional (by \<^verbatim>\<open>isBidirectionalRelation\<close>, and so in the
  flag stored with its connector) exactly when the relation set holds a relation with the
  endpoints swapped (B\<rightarrow>A); a lone relation A\<rightarrow>B between two different nodes is not flagged.
\<close>

theorem bidirectional_iff_reverse:
  "(isBidirectionalRelation (rel_from r) (rel_to r) rels
      \<longleftrightarrow> (\<exists>r' \<in> set rels. rel_from r' = rel_to r \<and> rel_to r' = rel_from r))
   \<and> (ud_isBidirectional (createRelationLine rnd a b r rels)
      \<longleftrightarrow> (\<exists>r' \<in> set rels. rel_from r' = rel_to r \<and> rel_to r' = rel_from r))
   \<and> (rel_from r \<noteq> rel_to r \<longrightarrow> \<not> isBidirectionalRelation (rel_from r) (rel_to r) [r])"
  by (auto simp: createRelationLine_flag isBidirectionalRelation_def some_iff)

theorem bidirectional_iff_reverse_witness:
  "isBidirectionalRelation ''A'' ''B''
     [\<lparr>rel_from = ''A'', rel_to = ''B'', relationType = CONTRACT, strength = 1, description = []\<rparr>,
      \<lparr>rel_from = ''B'', rel_to = ''A'', relationType = CONTRACT, strength = 1, description = []\<rparr>]
   \<and> \<not> isBidirectionalRelation ''A'' ''B''
     [\<lparr>rel_from = ''A'', rel_to = ''B'', relationType = CONTRACT, strength = 1, description = []\<rparr>]"
  using bidirectional_iff_reverse
    [where rnd = "\<lambda>i. 0" and a = "vec3 0 0 0" and b = "vec3 0 0 0" and r = "\<lparr>rel_from = ''A'', rel_to = ''B'', relationType = CONTRACT, strength = 1, description = []\<rparr>" and rels =
        "[\<lparr>rel_from = ''A'', rel_to = ''B'', relationType = CONTRACT, strength = 1, description = []\<rparr>,
          \<lparr>rel_from = ''B'', rel_to = ''A'', relationType = CONTRACT, strength = 1, description = []\<rparr>]"]
  by simp

subsection \<open>Layout\<close>

text \<open>
  The divisor \<^verbatim>\<open>Math.sqrt(dx * dx + dz * dz) || 1\<close> is never zero (and never \<^verbatim>\<open>NaN\<close>),
  whatever the rounding: the layout does not divide by zero.
\<close>

lemma jor_one_truthy: "jor_one x \<noteq> Fin 0 \<and> jor_one x \<noteq> NaN"
  by (cases x) auto

lemma planar_distance_truthy: "planar_distance fp dx dz \<noteq> Fin 0 \<and> planar_distance fp dx dz \<noteq> NaN"
  by (simp add: planar_distance_def jor_one_truthy)

text \<open>
  It is not floored to 1 either: a positive distance \<open>d\<close> below 1 is used as it is, when \<open>d\<close>
  and its square are doubles (\<open>d = 1/2\<close>, say).
\<close>

lemma planar_distance_not_floored:
  assumes "0 < d" "fl fp (d * d) = Fin (d * d)" "fl fp 0 = Fin 0" "fl fp d = Fin d"
  shows "planar_distance fp (Fin d) (Fin 0) = Fin d"
  using assms by (simp add: planar_distance_def)

text \<open>
  The guard does not keep the numbers finite. Take a platform whose rounding overflows to
  \<^verbatim>\<open>Infinity\<close> from \<open>2 ^ 1024\<close> on, as that of doubles does, and two nodes with the finite
  coordinates \<open>- a\<close> and \<open>a\<close>, where \<open>2 * a\<close> is a double whose square is \<open>2 ^ 1024\<close> or more
  (\<open>a = 2 ^ 600\<close>, say). The pull of a relation between them is \<^verbatim>\<open>NaN\<close>: the square of the
  distance overflows, the unit vector becomes \<open>0\<close> and the force \<^verbatim>\<open>Infinity\<close>, and their
  product is \<^verbatim>\<open>NaN\<close>.
\<close>

lemma attraction_overflows:
  assumes over: "\<And>r. 2 ^ 1024 \<le> r \<Longrightarrow> fl fp r = PInf"
    and zero: "fl fp 0 = Fin 0"
    and sum: "fl fp (2 * a) = Fin (2 * a)"
    and big: "2 ^ 1024 \<le> (2 * a) * (2 * a)"
    and k: "0 < k"
  shows "attraction fp (Fin k)
           \<lparr>node_x = Fin (- a), node_z = Fin 0, node_vx = Fin 0, node_vz = Fin 0\<rparr>
           \<lparr>node_x = Fin a, node_z = Fin 0, node_vx = Fin 0, node_vz = Fin 0\<rparr>
         = (NaN, NaN)"
proof -
  have dx: "jsub fp (Fin a) (Fin (- a)) = Fin (2 * a)"
    using sum by (simp add: jsub_def)
  have dz: "jsub fp (Fin 0) (Fin 0) = Fin 0"
    using zero by (simp add: jsub_def)
  have sq: "jmul fp (Fin (2 * a)) (Fin (2 * a)) = PInf"
    using over [OF big] by simp
  have dist: "planar_distance fp (Fin (2 * a)) (Fin 0) = PInf"
    using sq zero by (simp add: planar_distance_def)
  show ?thesis
    using k by (simp add: attraction_def Let_def dx dz dist signed_infinity_def)
qed

subsection \<open>Loading\<close>

lemma crl_from_fields:
  "console (createRelationLines_from i rnd all rest sm) = console sm"
  "sm_characters (createRelationLines_from i rnd all rest sm) = sm_characters sm"
  "characterAnimations (createRelationLines_from i rnd all rest sm) = characterAnimations sm"
  "interaction_relations (createRelationLines_from i rnd all rest sm) = interaction_relations sm"
  by (induction i rnd all rest sm rule: createRelationLines_from.induct;
      simp add: Let_def split: option.splits)+

lemma place_characters:
  "sm_characters (fold (place_character positions) cs sm)
     = fold (\<lambda>c m. map_set (originalFile c)
                ((generateCharacter c)\<lparr>sc_position :=
                    \<lparr>js_x = fst (case map_of positions (originalFile c) of Some p \<Rightarrow> p | None \<Rightarrow> (Fin 0, Fin 0)),
                     js_y = Fin 0,
                     js_z = snd (case map_of positions (originalFile c) of Some p \<Rightarrow> p | None \<Rightarrow> (Fin 0, Fin 0))\<rparr>\<rparr>) m)
         cs (sm_characters sm)"
  by (induction cs arbitrary: sm) (simp_all add: place_character_def Let_def)

lemma setCharacters_characters: "sm_characters (setCharacters rnd sm) = sm_characters sm"
  by (simp add: setCharacters_def)

text \<open>
  C3. Loading the same analysis result twice gives every character the same layout
  position both times, whatever the scene manager held before each load and whatever
  numbers \<^verbatim>\<open>Math.random()\<close> returns during each load: the random numbers reach animation
  states and particle speeds only. This holds for every rounding of the platform, and for
  layouts with non-finite coordinates as well.
\<close>

theorem load_layout_deterministic:
  "layout_positions (loadAnalysis fp rnd1 result smA)
     = layout_positions (loadAnalysis fp rnd2 result smB)"
  by (simp add: loadAnalysis_def Let_def layout_positions_def setCharacters_characters
      createRelationLines_def crl_from_fields place_characters clearScene_def)

subsection \<open>Relations that reference a missing node\<close>

lemma crl_from_count:
  "length (sm_relations (createRelationLines_from i rnd all rest sm)) + skipped sm rest
     = length (sm_relations sm) + length rest"
  by (induction i rnd all rest sm rule: createRelationLines_from.induct)
     (auto simp: skipped_def resolvable_def Let_def split: option.splits)

lemma crl_from_all_skipped:
  "\<forall>r \<in> set rest. \<not> resolvable sm r \<Longrightarrow> createRelationLines_from i rnd all rest sm = sm"
  by (induction i rnd all rest sm rule: createRelationLines_from.induct)
     (auto simp: resolvable_def split: option.splits)

text \<open>
  C5 (amended). \<^verbatim>\<open>createRelationLines\<close> never raises; a relation whose source or target is
  no character of the scene is skipped and leaves no trace: nothing is written to the
  console, the characters are untouched, exactly one connector is added for each relation
  that is not skipped, and when every relation of the list is skipped the scene manager is
  left exactly as it was. No count of the skipped relations is kept or logged.
\<close>

theorem skipped_relations_leave_no_trace:
  "console (createRelationLines rnd relations sm) = console sm
   \<and> sm_characters (createRelationLines rnd relations sm) = sm_characters sm
   \<and> length (sm_relations (createRelationLines rnd relations sm)) + skipped sm relations
       = length (sm_relations sm) + length relations
   \<and> ((\<forall>r \<in> set relations. \<not> resolvable sm r) \<longrightarrow> createRelationLines rnd relations sm = sm)"
  by (simp add: createRelationLines_def crl_from_fields crl_from_count crl_from_all_skipped)

text \<open>The witness: the scene with the single character a.ts and the dangling relation.\<close>

theorem skipped_relations_leave_no_trace_witness:
  "\<not> resolvable lone_scene dangling_relation
   \<and> createRelationLines fixed_random [dangling_relation] lone_scene = lone_scene
   \<and> console (createRelationLines fixed_random [dangling_relation] lone_scene) = console lone_scene
   \<and> length (sm_relations (createRelationLines fixed_random [dangling_relation] lone_scene)) = 0"
  using skipped_relations_leave_no_trace [of fixed_random "[dangling_relation]" lone_scene]
  by (simp add: resolvable_def lone_scene_def dangling_relation_def skipped_def)

text \<open>
  C5 as stated says the number of skipped relations is recorded or logged. In the scene with
  the single character a.ts, loading the list with one dangling relation (one skip) leaves
  the scene manager in the same state as loading the empty list (no skip), with an empty
  console: the count cannot be observed.
\<close>

theorem skip_count_not_recorded:
  "skipped lone_scene [dangling_relation] = 1
   \<and> skipped lone_scene [] = 0
   \<and> createRelationLines fixed_random [dangling_relation] lone_scene
       = createRelationLines fixed_random [] lone_scene
   \<and> console (createRelationLines fixed_random [dangling_relation] lone_scene) = []"
  by (simp add: createRelationLines_def skipped_def resolvable_def lone_scene_def dangling_relation_def)

subsection \<open>Flow particles\<close>

text \<open>Whatever the frame time, the position drawn for a particle is the linear interpolation
  between the two end points at its progress, and the progress stays in [0, 1].\<close>

lemma animate_particle_on_segment:
  "fp_position (animate_particle delta s e p) = lerp s e (fp_offset (animate_particle delta s e p))"
  "0 \<le> fp_offset (animate_particle delta s e p)"
  "fp_offset (animate_particle delta s e p) \<le> 1"
  by (simp_all add: animate_particle_def Let_def)

text \<open>
  C6 (the code departs from the claim). The claim: a flow particle at progress \<open>t\<close> is drawn
  on an arc from the source point to the target point, raised in proportion to
  \<open>sin (t * pi)\<close>, not on the straight segment. The position that is drawn is the one
  \<^verbatim>\<open>SceneManager.animate\<close> copies into the particle's mesh, and that is the linear
  interpolation: at progress 1/2 on the connector from (0, 1, 0) to (4, 1, 0) the particle
  is at the midpoint (2, 1, 0) of the segment, while the arc of
  \<^verbatim>\<open>AnimationManager.getFlowParticlePositions\<close> passes through (2, 7/4, 0); that function
  has no caller, and on the particle map of the scene's animation manager it yields nothing.
\<close>

theorem flow_particle_drawn_on_segment:
  "fp_offset flow_example = 1 / 2
   \<and> fp_position flow_example = vec3 2 1 0
   \<and> fp_position flow_example = lerp (vec3 0 1 0) (vec3 4 1 0) (1 / 2)
   \<and> arc_position (vec3 0 1 0) (vec3 4 1 0) (1 / 2) = vec3 2 (7 / 4) 0
   \<and> getFlowParticlePositions scene_flowParticles = []"
  by (simp add: flow_example_def animate_particle_def arc_position_def Let_def vec_simps
      getFlowParticlePositions_def scene_flowParticles_def)

subsection \<open>Dragging\<close>

text \<open>For every connector that touches the dragged character, the drawn length of the pipe
  after the drag is the height its geometry was created with times half the new distance
  of the end points.\<close>

lemma updateRelationLine_rendered_length:
  assumes "ud_relation g = Some r" "rel_from r = f \<or> rel_to r = f"
  shows "rendered_length (rg_pipe (updateRelationLine f p g))
           = mesh_height (rg_pipe g)
             * (distanceTo (ud_startPoint (updateRelationLine f p g)) (ud_endPoint (updateRelationLine f p g)) / 2)"
proof -
  have sym: "vlength (subVectors a b) = vlength (subVectors b a)" for a b
    by (simp add: vlength_def subVectors_def vec3_def algebra_simps)
  show ?thesis
    using assms
    by (auto simp: updateRelationLine_def Let_def rendered_length_def distanceTo_def sym vec3_def)
qed

lemma drag_before_eval:
  "rg_pipe drag_before = \<lparr>mesh_position = vec3 2 1 0, mesh_scale = vec3 1 1 1,
                            mesh_axis = vec3 1 0 0, mesh_height = 4\<rparr>"
  "rg_arrows drag_before = [\<lparr>mesh_position = vec3 (18 / 5) 1 0, mesh_scale = vec3 1 1 1,
                              mesh_axis = vec3 1 0 0, mesh_height = 4 / 5\<rparr>]"
  "ud_startPoint drag_before = vec3 0 1 0"
  "ud_endPoint drag_before = vec3 4 1 0"
  "ud_relation drag_before = Some drag_relation"
  "ud_isBidirectional drag_before = False"
  "ud_arrow drag_before = None" "ud_arrow1 drag_before = None" "ud_arrow2 drag_before = None"
  by (simp_all add: drag_before_def drag_relation_def createRelationLine_def Let_def
      isBidirectionalRelation_def new_Mesh_def vec_simps)

text \<open>
  C2 (the code departs from the claim). The claim: after a drag every connector touching the
  dragged node is drawn with a length equal to the new distance between its endpoints, and
  its arrow heads keep the standoff they had when the connector was created. On the scene
  above the connector is created with length 4 and an arrow head 2/5 from the target end.
  After B is dragged to (8, 0, 0) the endpoints are 8 apart, but the pipe is drawn with
  length 16 (its geometry of height 4, scaled by 8/2), and the arrow head has not moved, so
  it is 22/5 from the target end.
\<close>

theorem drag_breaks_length_and_standoff:
  "length drag_after = 1
   \<and> distanceTo (ud_startPoint drag_before) (ud_endPoint drag_before) = 4
   \<and> rendered_length (rg_pipe drag_before) = 4
   \<and> standoff (rg_arrows drag_before ! 0) (ud_endPoint drag_before) = 2 / 5
   \<and> distanceTo (ud_startPoint (drag_after ! 0)) (ud_endPoint (drag_after ! 0)) = 8
   \<and> rendered_length (rg_pipe (drag_after ! 0)) = 16
   \<and> standoff (rg_arrows (drag_after ! 0) ! 0) (ud_endPoint (drag_after ! 0)) = 22 / 5"
  by (simp add: drag_after_def updateRelationLines_def updateRelationLine_def drag_before_eval
      drag_relation_def Let_def rendered_length_def standoff_def vec_simps real_sqrt_divide)

subsection \<open>Network highlight\<close>

lemma createRelationLine_material:
  "rg_pipeMaterial (createRelationLine rnd a b r rs) =
     \<lparr>mat_kind = MeshStandardMaterial, mat_transparent = True,
      mat_opacity = strength r * 0.7, mat_userData = Some empty_userData\<rparr>"
  "ud_relation (createRelationLine rnd a b r rs) = Some r"
  by (simp_all add: createRelationLine_def Let_def)

text \<open>
  C1 (the code departs from the claim). The claim: clearing after a highlight gives every
  entity the opacity and transparency it had before, from values cached before any
  dimming. In the scene \<open>hl_scene\<close> the wing of b.ts is transparent with opacity 7/10 and the
  connector has opacity 7/10 (strength 1 times 0.7). Highlighting the network of a.ts dims
  b.ts without caching anything, and clearing then makes every character material opaque
  with opacity 1 and sets the connector to strength times 0.8: the wing ends opaque and the
  connector at 4/5.
\<close>

theorem clear_after_highlight_not_identity:
  "opacity_fields hl_scene =
     ([(False, 1), (False, 1), (True, 7 / 10), (False, 1)], [(True, 7 / 10)])
   \<and> opacity_fields (highlightNetwork ''a.ts'' hl_scene) =
     ([(False, 1), (True, 3 / 10), (True, 3 / 10), (False, 1)], [(True, 9 / 10)])
   \<and> opacity_fields (clearHighlightNetwork (highlightNetwork ''a.ts'' hl_scene)) =
     ([(False, 1), (False, 1), (False, 1), (False, 1)], [(True, 4 / 5)])"
  by (simp add: opacity_fields_def hl_scene_def highlightNetwork_def clearHighlightNetwork_def
      createRelationLine_material new_character_def toon_mesh_def Let_def traverse_group_def
      dim_mesh_def show_related_mesh_def restore_mesh_def dim_material_def restore_material_def
      cache_and_show_material_def toon_or_standard_def set_line_opacity_def highlighted_def
      relatedFiles_def touches_def hl_relation_def material_fields_def empty_userData_def)

subsection \<open>Selection ring\<close>

lemma ring_count_0_not_ring: "ring_count c = 0 \<Longrightarrow> \<not> is_ring c"
  by (cases c) auto

text \<open>A ring that is the last child is removed by the traversal without an exception.\<close>

lemma traverse_remove_last_ring:
  "i + n = Suc (length cs) \<Longrightarrow> i \<le> length cs \<Longrightarrow> \<forall>c \<in> set cs. \<not> is_ring c \<Longrightarrow> is_ring r
     \<Longrightarrow> traverse_remove i n (cs @ [r]) = Inr cs"
proof (induction n arbitrary: i)
  case 0
  then show ?case by simp
next
  case (Suc n)
  show ?case
  proof (cases "i < length cs")
    case True
    with Suc.prems have "\<not> is_ring ((cs @ [r]) ! i)"
      by (simp add: nth_append)
    moreover have "traverse_remove (Suc i) n (cs @ [r]) = Inr cs"
      using Suc.prems True by (intro Suc.IH) auto
    ultimately show ?thesis using True by simp
  next
    case False
    with Suc.prems have i: "i = length cs" and n: "n = 0" by auto
    then show ?thesis using Suc.prems by simp
  qed
qed

lemma removeSelectionRing_last:
  assumes "cg_children grp = cs @ [r]" "is_ring r" "sum_list (map ring_count cs) = 0"
  shows "removeSelectionRing grp = Inr (grp\<lparr>cg_children := cs\<rparr>)"
proof -
  from assms(3) have "\<forall>c \<in> set cs. \<not> is_ring c"
    by (auto dest: ring_count_0_not_ring)
  then have "traverse_remove 0 (Suc (length cs)) (cs @ [r]) = Inr cs"
    using assms(2) by (intro traverse_remove_last_ring) auto
  then show ?thesis using assms(1) by (simp add: removeSelectionRing_def)
qed

text \<open>
  When the selected node \<open>g\<close> carries the selection ring as its last child (where
  \<^verbatim>\<open>addSelectionRing\<close> puts it) and no other object of the scene is a ring, a double click on
  \<open>g\<close> completes without an exception, removes the ring, clears the node's draggable and
  selected flags and the selection, and leaves no selection ring in the scene. The handlers do
  not maintain these two conditions: \<^verbatim>\<open>onClick\<close> and \<^verbatim>\<open>onMouseDown\<close> move
  \<^verbatim>\<open>selectedCharacter\<close> to another node and leave the ring where it was.
\<close>

lemma toggle_off_single_ring:
  assumes g: "g < length (im_characters im)"
    and sel: "selectedCharacter im = Some g"
    and ch: "cg_children (im_characters im ! g) = cs @ [r]"
    and r: "is_ring r"
    and cs: "sum_list (map ring_count cs) = 0"
    and others: "\<forall>h < length (im_characters im). h \<noteq> g \<longrightarrow> group_rings (im_characters im ! h) = 0"
  shows "\<exists>im'. onDoubleClick (Some g) im = Inr im'
           \<and> scene_rings im' = 0
           \<and> selectedCharacter im' = None
           \<and> length (im_characters im') = length (im_characters im)
           \<and> cg_children (im_characters im' ! g) = cs
           \<and> \<not> cg_isDraggable (im_characters im' ! g)
           \<and> \<not> cg_isSelected (im_characters im' ! g)"
proof -
  let ?grp = "im_characters im ! g"
  let ?grp' = "unselect (?grp\<lparr>cg_children := cs\<rparr>)"
  let ?im' = "im\<lparr>im_characters := (im_characters im)[g := ?grp'], selectedCharacter := None\<rparr>"
  have rm: "removeSelectionRing ?grp = Inr (?grp\<lparr>cg_children := cs\<rparr>)"
    using ch r cs by (rule removeSelectionRing_last)
  have res: "onDoubleClick (Some g) im = Inr ?im'"
    using g sel rm by (simp add: onDoubleClick_def remove_ring_of_def update_group_def)
  have "group_rings x = 0" if "x \<in> set (im_characters ?im')" for x
  proof -
    from that obtain h where h: "h < length (im_characters im)"
      and x: "x = (im_characters im)[g := ?grp'] ! h"
      by (auto simp: in_set_conv_nth)
    show ?thesis
    proof (cases "h = g")
      case True
      with x g cs show ?thesis by (simp add: group_rings_def unselect_def)
    next
      case False
      with x h others show ?thesis by simp
    qed
  qed
  then have "scene_rings ?im' = 0"
    by (simp add: scene_rings_def)
  with res g show ?thesis
    by (simp add: unselect_def)
qed

text \<open>Two double clicks on the same node of an idle scene, with nothing in between: the first
  selects it and gives it the ring, the second returns the scene to no ring.\<close>

lemma toggle_off_single_ring_example:
  "onDoubleClick (Some 0) sel_idle = Inr sel_selected
   \<and> scene_rings sel_selected = 1
   \<and> (\<exists>im'. onDoubleClick (Some 0) sel_selected = Inr im'
          \<and> scene_rings im' = 0
          \<and> selectedCharacter im' = None
          \<and> length (im_characters im') = length (im_characters sel_selected)
          \<and> cg_children (im_characters im' ! 0) = [OtherNode [toon_mesh False 1]]
          \<and> \<not> cg_isDraggable (im_characters im' ! 0)
          \<and> \<not> cg_isSelected (im_characters im' ! 0))"
proof -
  have first: "onDoubleClick (Some 0) sel_idle = Inr sel_selected"
    by (simp add: onDoubleClick_def sel_idle_def sel_selected_def add_ring_to_def
        addSelectionRing_def removeSelectionRing_def update_group_def new_character_def
        toon_mesh_def Let_def)
  have rings: "scene_rings sel_selected = 1"
    by (simp add: scene_rings_def group_rings_def sel_selected_def new_character_def
        toon_mesh_def new_ring_def Let_def)
  have second: "\<exists>im'. onDoubleClick (Some 0) sel_selected = Inr im'
          \<and> scene_rings im' = 0
          \<and> selectedCharacter im' = None
          \<and> length (im_characters im') = length (im_characters sel_selected)
          \<and> cg_children (im_characters im' ! 0) = [OtherNode [toon_mesh False 1]]
          \<and> \<not> cg_isDraggable (im_characters im' ! 0)
          \<and> \<not> cg_isSelected (im_characters im' ! 0)"
    by (rule toggle_off_single_ring [of 0 sel_selected "[OtherNode [toon_mesh False 1]]" new_ring])
       (simp_all add: sel_selected_def new_character_def toon_mesh_def new_ring_def
          group_rings_def Let_def less_Suc_eq)
  from first rings second show ?thesis by blast
qed


subsection \<open>Mount and dispose\<close>

text \<open>From every state of the page: the resize listener that \<^verbatim>\<open>mount\<close> registers is still
  registered after \<^verbatim>\<open>dispose\<close>, because \<^verbatim>\<open>dispose\<close> asks for the removal of a function bound
  later.\<close>

lemma listen_bound_listeners:
  "set (listeners pg) \<subseteq> set (listeners (listen_bound target ty pg))"
  "next_function (listen_bound target ty pg) = Suc (next_function pg)"
  by (auto simp: listen_bound_def bind_def addEventListener_def)

lemma listen_bound_registers:
  "(target, ty, next_function pg) \<in> set (listeners (listen_bound target ty pg))"
  by (auto simp: listen_bound_def bind_def addEventListener_def)

lemma fold_listen_bound:
  "set (listeners pg) \<subseteq> set (listeners (fold (listen_bound target) tys pg))
   \<and> next_function (fold (listen_bound target) tys pg) = next_function pg + length tys"
proof (induction tys arbitrary: pg)
  case Nil
  then show ?case by simp
next
  case (Cons ty tys)
  from Cons.IH [of "listen_bound target ty pg"]
    listen_bound_listeners [where pg = pg and target = target and ty = ty]
  show ?case by auto
qed

lemma mount_registers_resize:
  "(Window, ''resize'', next_function pg) \<in> set (listeners (mount container pg))
   \<and> next_function pg < next_function (mount container pg)"
proof -
  let ?pg2 = "pg\<lparr>sm_container := Some container,
                   container_children := container_children pg @ [''renderer.domElement'']\<rparr>"
  let ?pg3 = "listen_bound Window ''resize'' ?pg2"
  have 3: "(Window, ''resize'', next_function pg) \<in> set (listeners ?pg3)"
    using listen_bound_registers [where target = Window and ty = "''resize''" and pg = ?pg2] by simp
  have n3: "next_function ?pg3 = Suc (next_function pg)"
    by (simp add: listen_bound_listeners)
  have "set (listeners ?pg3) \<subseteq> set (listeners (setupEvents ?pg3))
      \<and> next_function (setupEvents ?pg3) = next_function ?pg3
            + length [''mousemove'', ''click'', ''dblclick'', ''mousedown'', ''mouseup'', ''wheel'']"
    unfolding setupEvents_def by (rule fold_listen_bound)
  then have 4: "set (listeners ?pg3) \<subseteq> set (listeners (setupEvents ?pg3))"
    "next_function (setupEvents ?pg3) = next_function ?pg3 + 6"
    by simp_all
  show ?thesis
    using 3 4 n3 by (auto simp: mount_def Let_def bind_def)
qed

lemma dispose_removes_nothing_bound_before:
  "l \<in> set (listeners pg) \<Longrightarrow> snd (snd l) < next_function pg \<Longrightarrow> l \<in> set (listeners (dispose pg))"
  by (auto simp: dispose_def bind_def removeEventListener_def Let_def)

lemma resize_listener_survives_dispose:
  "(Window, ''resize'', next_function pg) \<in> set (listeners (dispose (mount container pg)))"
  using mount_registers_resize [of pg container]
  by (intro dispose_removes_nothing_bound_before) auto

text \<open>
  C9 (the code departs from the claim). The claim: \<^verbatim>\<open>dispose()\<close> after \<^verbatim>\<open>mount(container)\<close>
  releases every listener that \<^verbatim>\<open>mount\<close> registered, the window resize listener in
  particular. \<^verbatim>\<open>dispose\<close> passes a newly bound function to \<^verbatim>\<open>removeEventListener\<close>, which
  matches no registration: after \<^verbatim>\<open>mount\<close> and \<^verbatim>\<open>dispose\<close> on a new page the resize listener
  and the six container listeners are all still registered, the frame callback is still
  scheduled and the canvas is still in the container.
\<close>

theorem dispose_leaves_listeners:
  "listeners (dispose (mount ''app'' new_page)) =
     [(Window, ''resize'', 0), (Container, ''mousemove'', 1), (Container, ''click'', 2),
      (Container, ''dblclick'', 3), (Container, ''mousedown'', 4), (Container, ''mouseup'', 5),
      (Container, ''wheel'', 6)]
   \<and> animation_frame_callbacks (dispose (mount ''app'' new_page)) = [7]
   \<and> container_children (dispose (mount ''app'' new_page)) = [''renderer.domElement'']"
  by code_simp

end
